theory Spec2Isabelle
  imports Complex_Main "HOL-Library.AList"
begin

section \<open>The storage transport (storage-transport.ts)\<close>

text \<open>
  The embedding follows \<^verbatim>\<open>StorageTransport\<close> and its
  \<^verbatim>\<open>makeRequest\<close>. An asynchronous call is modelled by what it
  leaves behind once it has settled: the callback invocations in order, the settlement of
  the returned promise, the config handed to \<^verbatim>\<open>authClient.request\<close>,
  and the mutated module variable, transport and descriptor. Calls are taken one at a time
  (no interleaving of two logical calls).

  Strings are byte strings: header names and values as \<^verbatim>\<open>Headers\<close>
  holds them, query names and values in their UTF-8 encoding.
\<close>

subsection \<open>Runtime classes used by the transport\<close>

subsubsection \<open>Headers (Fetch standard)\<close>

text \<open>
  A \<^verbatim>\<open>Headers\<close> object is looked up by byte-lowercased name and
  yields the combined value, so it is a map from lowercased names to combined values.
  \<^verbatim>\<open>append\<close> and \<^verbatim>\<open>set\<close> first normalize the
  value (strip leading and trailing HTTP whitespace) and throw a TypeError
  (\<open>None\<close>) for a name that is not a token or a value holding NUL, CR or LF.
\<close>

type_synonym headers = "string \<rightharpoonup> string"

definition ascii_lowercase :: "char \<Rightarrow> char" where
  "ascii_lowercase c =
     (case map_of (zip ''ABCDEFGHIJKLMNOPQRSTUVWXYZ'' ''abcdefghijklmnopqrstuvwxyz'') c of
        Some d \<Rightarrow> d
      | None \<Rightarrow> c)"

definition lowercase :: "string \<Rightarrow> string" where
  "lowercase s = map ascii_lowercase s"

definition is_http_whitespace :: "char \<Rightarrow> bool" where
  "is_http_whitespace c = (c = CHR 0x09 \<or> c = CHR 0x0A \<or> c = CHR 0x0D \<or> c = CHR 0x20)"

definition strip_trailing :: "string \<Rightarrow> string" where
  "strip_trailing v = rev (dropWhile is_http_whitespace (rev v))"

definition normalize_value :: "string \<Rightarrow> string" where
  "normalize_value v = strip_trailing (dropWhile is_http_whitespace v)"

definition is_token_char :: "char \<Rightarrow> bool" where
  "is_token_char c =
     (c \<in> set ''abcdefghijklmnopqrstuvwxyzABCDEFGHIJKLMNOPQRSTUVWXYZ0123456789!#$%&*+-.^_|~''
      \<or> c = CHR 0x27 \<or> c = CHR 0x60)"

definition is_header_name :: "string \<Rightarrow> bool" where
  "is_header_name n = (n \<noteq> [] \<and> list_all is_token_char n)"

definition is_header_value :: "string \<Rightarrow> bool" where
  "is_header_value v = list_all (\<lambda>c. c \<noteq> CHR 0x00 \<and> c \<noteq> CHR 0x0A \<and> c \<noteq> CHR 0x0D) v"

definition Headers_append :: "headers \<Rightarrow> string \<Rightarrow> string \<Rightarrow> headers option" where
  "Headers_append h name v =
     (let v' = normalize_value v in
      if is_header_name name \<and> is_header_value v'
      then Some (h(lowercase name \<mapsto>
                   (case h (lowercase name) of None \<Rightarrow> v' | Some old \<Rightarrow> old @ '', '' @ v')))
      else None)"

definition Headers_set :: "headers \<Rightarrow> string \<Rightarrow> string \<Rightarrow> headers option" where
  "Headers_set h name v =
     (let v' = normalize_value v in
      if is_header_name name \<and> is_header_value v'
      then Some (h(lowercase name \<mapsto> v'))
      else None)"

definition Headers_get :: "headers \<Rightarrow> string \<Rightarrow> string option" where
  "Headers_get h name = h (lowercase name)"

text \<open>
  \<^verbatim>\<open>new Headers(init)\<close>: every entry of \<open>init\<close> (the own
  properties of a record in order, the pairs of a sequence, the entries of another
  Headers object) is appended.
\<close>

fun Headers_fill :: "headers \<Rightarrow> (string \<times> string) list \<Rightarrow> headers option" where
  "Headers_fill h [] = Some h"
| "Headers_fill h ((name, v) # rest) =
     (case Headers_append h name v of None \<Rightarrow> None | Some h' \<Rightarrow> Headers_fill h' rest)"

definition Headers_new :: "(string \<times> string) list \<Rightarrow> headers option" where
  "Headers_new init = Headers_fill Map.empty init"

subsubsection \<open>URLSearchParams and URL (URL standard)\<close>

text \<open>
  A query parameter value is \<^verbatim>\<open>string | number | boolean | undefined\<close>.
  The numbers of the runtime are the values of a type parameter, and what
  \<^verbatim>\<open>String\<close> prints for a number (\<^verbatim>\<open>Number::toString\<close>)
  is a parameter of the model, see \<open>environment\<close>.
\<close>

datatype 'n qp_value = QString string | QNumber 'n | QBoolean bool | QUndefined

fun String :: "('n \<Rightarrow> string) \<Rightarrow> 'n qp_value \<Rightarrow> string" where
  "String number_toString (QString s) = s"
| "String number_toString (QNumber n) = number_toString n"
| "String number_toString (QBoolean b) = (if b then ''true'' else ''false'')"
| "String number_toString QUndefined = ''undefined''"

text \<open>
  The application/x-www-form-urlencoded serializer: a byte is kept when it is an ASCII
  alphanumeric or one of \<^verbatim>\<open>* - . _\<close>, a space becomes
  \<^verbatim>\<open>+\<close>, any other byte becomes \<^verbatim>\<open>%XX\<close>.
\<close>

definition urlencoded_keep :: "char \<Rightarrow> bool" where
  "urlencoded_keep c =
     (c \<in> set ''abcdefghijklmnopqrstuvwxyzABCDEFGHIJKLMNOPQRSTUVWXYZ0123456789*-._'')"

definition hex_digit :: "nat \<Rightarrow> char" where
  "hex_digit n = ''0123456789ABCDEF'' ! n"

definition percent_encode_byte :: "char \<Rightarrow> string" where
  "percent_encode_byte c =
     [CHR ''%'', hex_digit (of_char c div 16), hex_digit (of_char c mod 16)]"

definition urlencode_byte :: "char \<Rightarrow> string" where
  "urlencode_byte c =
     (if urlencoded_keep c then [c]
      else if c = CHR 0x20 then ''+''
      else percent_encode_byte c)"

definition urlencode :: "string \<Rightarrow> string" where
  "urlencode s = concat (map urlencode_byte s)"

fun join_amp :: "string list \<Rightarrow> string" where
  "join_amp [] = []"
| "join_amp [p] = p"
| "join_amp (p # q # ps) = p @ ''&'' @ join_amp (q # ps)"

definition URLSearchParams_toString :: "(string \<times> string) list \<Rightarrow> string" where
  "URLSearchParams_toString entries =
     join_amp (map (\<lambda>(name, v). urlencode name @ ''='' @ urlencode v) entries)"

text \<open>
  \<^verbatim>\<open>new URLSearchParams(record)\<close>: one entry per own property, in
  property order, the value converted with \<^verbatim>\<open>String\<close>. An object
  is given by the list of its own properties in that order (each key once; for keys
  that are no array indices it is the order of insertion).
\<close>

definition URLSearchParams_new ::
  "('n \<Rightarrow> string) \<Rightarrow> (string \<times> 'n qp_value) list \<Rightarrow> (string \<times> string) list" where
  "URLSearchParams_new number_toString record =
     map (\<lambda>(name, v). (name, String number_toString v)) record"

text \<open>
  A parsed URL: its serialization up to the query (scheme, authority and path), its
  query and its fragment (\<open>None\<close> for null), whether its scheme is special
  (\<^verbatim>\<open>http\<close>, \<^verbatim>\<open>https\<close>, \<^verbatim>\<open>ws\<close>,
  \<^verbatim>\<open>wss\<close>, \<^verbatim>\<open>ftp\<close>, \<^verbatim>\<open>file\<close>)
  and whether its path is opaque (the path of a URL such as
  \<^verbatim>\<open>mailto:a@b\<close>, whose scheme is not special and is not followed by
  a slash); the serialization up to the query then ends with the path. The parser itself
  (\<^verbatim>\<open>new URL(s)\<close>, which throws a TypeError on a string that is no
  absolute URL) is a parameter of the model, see \<open>environment\<close>.

  The \<^verbatim>\<open>search\<close> setter replaces the query. Given the empty string
  it makes the query null and then strips the trailing spaces of an opaque path when
  the fragment is null. Given another string it drops one leading
  \<^verbatim>\<open>?\<close>, removes tabs and newlines, and stores the rest
  percent-encoded with the query percent-encode set: the bytes up to the space, the
  bytes from DEL on, \<^verbatim>\<open>" # < >\<close> and, in a special URL, the
  apostrophe.
\<close>

record URL =
  url_before_query :: string
  url_query :: "string option"
  url_fragment :: "string option"
  url_special :: bool
  url_opaque_path :: bool

definition strip_trailing_spaces :: "string \<Rightarrow> string" where
  "strip_trailing_spaces s = rev (dropWhile (\<lambda>c. c = CHR 0x20) (rev s))"

definition is_tab_or_newline :: "char \<Rightarrow> bool" where
  "is_tab_or_newline c = (c = CHR 0x09 \<or> c = CHR 0x0A \<or> c = CHR 0x0D)"

definition in_query_percent_encode_set :: "bool \<Rightarrow> char \<Rightarrow> bool" where
  "in_query_percent_encode_set special c =
     ((of_char c :: nat) \<le> 0x20 \<or> 0x7E < (of_char c :: nat)
      \<or> c = CHR 0x22 \<or> c = CHR 0x23 \<or> c = CHR 0x3C \<or> c = CHR 0x3E
      \<or> (special \<and> c = CHR 0x27))"

definition query_percent_encode :: "bool \<Rightarrow> string \<Rightarrow> string" where
  "query_percent_encode special s =
     concat (map (\<lambda>c. if in_query_percent_encode_set special c
                        then percent_encode_byte c else [c]) s)"

definition URL_set_search :: "URL \<Rightarrow> string \<Rightarrow> URL" where
  "URL_set_search u v =
     (case v of
        [] \<Rightarrow>
          (if url_opaque_path u \<and> url_fragment u = None
           then u\<lparr>url_before_query := strip_trailing_spaces (url_before_query u),
                  url_query := None\<rparr>
           else u\<lparr>url_query := None\<rparr>)
      | c # cs \<Rightarrow>
          u\<lparr>url_query :=
              Some (query_percent_encode (url_special u)
                      (filter (\<lambda>x. \<not> is_tab_or_newline x)
                         (if c = CHR ''?'' then cs else v)))\<rparr>)"

definition URL_href :: "URL \<Rightarrow> string" where
  "URL_href u =
     url_before_query u
     @ (case url_query u of None \<Rightarrow> [] | Some q \<Rightarrow> CHR ''?'' # q)
     @ (case url_fragment u of None \<Rightarrow> [] | Some f \<Rightarrow> CHR ''#'' # f)"

text \<open>
  The application/x-www-form-urlencoded parser, which
  \<^verbatim>\<open>url.searchParams\<close> applies to the query of a URL: split at
  \<^verbatim>\<open>&\<close>, skip empty pieces, split each piece at its first
  \<^verbatim>\<open>=\<close>, turn \<^verbatim>\<open>+\<close> into a space and
  percent-decode.
\<close>

fun split_on :: "char \<Rightarrow> string \<Rightarrow> string list" where
  "split_on c [] = [[]]"
| "split_on c (x # xs) =
     (if x = c then [] # split_on c xs
      else (case split_on c xs of [] \<Rightarrow> [[x]] | p # ps \<Rightarrow> (x # p) # ps))"

definition hex_value :: "char \<Rightarrow> nat option" where
  "hex_value c =
     map_of (zip ''0123456789ABCDEFabcdef''
               [0, 1, 2, 3, 4, 5, 6, 7, 8, 9, 10, 11, 12, 13, 14, 15, 10, 11, 12, 13, 14, 15]) c"

fun percent_decode :: "string \<Rightarrow> string" where
  "percent_decode [] = []"
| "percent_decode (c # cs) =
     (if c = CHR ''%''
      then (case cs of
              a # b # rest \<Rightarrow>
                (case (hex_value a, hex_value b) of
                   (Some x, Some y) \<Rightarrow> char_of (16 * x + y) # percent_decode rest
                 | _ \<Rightarrow> c # percent_decode cs)
            | _ \<Rightarrow> c # percent_decode cs)
      else c # percent_decode cs)"

definition urldecode :: "string \<Rightarrow> string" where
  "urldecode s = percent_decode (map (\<lambda>c. if c = CHR ''+'' then CHR 0x20 else c) s)"

definition parse_pair :: "string \<Rightarrow> string \<times> string" where
  "parse_pair p =
     (urldecode (takeWhile (\<lambda>c. c \<noteq> CHR ''='') p),
      urldecode (drop 1 (dropWhile (\<lambda>c. c \<noteq> CHR ''='') p)))"

definition urlencoded_parse :: "string \<Rightarrow> (string \<times> string) list" where
  "urlencoded_parse q = map parse_pair (filter (\<lambda>p. p \<noteq> []) (split_on CHR ''&'' q))"

text \<open>
  \<^verbatim>\<open>url.searchParams.get(name)\<close>: the value of the first entry
  with that name, \<open>None\<close> for \<^verbatim>\<open>null\<close>.
\<close>

definition searchParams_get :: "URL \<Rightarrow> string \<Rightarrow> string option" where
  "searchParams_get u name =
     map_of (urlencoded_parse (case url_query u of None \<Rightarrow> [] | Some q \<Rightarrow> q)) name"

subsection \<open>Errors, responses and the callback\<close>

text \<open>
  A response carries its \<^verbatim>\<open>data\<close>. A thrown value is a TypeError of
  the runtime or an error object of a collaborator, which may carry a
  \<^verbatim>\<open>response\<close> property (a GaxiosError does).
\<close>

record 'a response =
  data :: 'a
  status :: nat

datatype 'a js_error = TypeError | Error string "'a response option"

fun error_response :: "'a js_error \<Rightarrow> 'a response option" where
  "error_response TypeError = None"
| "error_response (Error msg r) = r"

text \<open>
  An argument as the callee sees it: \<^verbatim>\<open>undefined\<close> (also an argument
  that was not passed), \<^verbatim>\<open>null\<close>, or a value.
\<close>

datatype 'x js = Undefined | Null | Val 'x

fun or_undefined :: "'x option \<Rightarrow> 'x js" where
  "or_undefined None = Undefined"
| "or_undefined (Some x) = Val x"

record 'a callback_args =
  cb_err :: "'a js_error js"
  cb_data :: "'a js"
  cb_fullResponse :: "'a response js"

text \<open>
  A \<^verbatim>\<open>StorageTransportCallback\<close>: given its arguments it returns
  (\<open>None\<close>) or throws (\<open>Some e\<close>).
\<close>

type_synonym 'a callback = "'a callback_args \<Rightarrow> 'a js_error option"

datatype 'a settlement = Resolved "'a js" | Rejected "'a js_error"

subsection \<open>Transport, descriptor and config\<close>

text \<open>
  Modelled from the spec: \<^verbatim>\<open>RetryOptions\<close> of
  \<^verbatim>\<open>./storage\<close>, whose declaration is not among the sources; the
  fields are the five that \<^verbatim>\<open>makeRequest\<close> reads.
\<close>

record 'a RetryOptions =
  maxRetries :: nat
  maxRetryDelay :: real
  retryDelayMultiplier :: real
  totalTimeout :: real
  retryableErrorFn :: "'a js_error \<Rightarrow> bool"

record 'a retryConfig =
  retry :: nat
  noResponseRetries :: nat
  rc_maxRetryDelay :: real
  rc_retryDelayMultiplier :: real
  shouldRetry :: "'a js_error \<Rightarrow> bool"
  rc_totalTimeout :: real

text \<open>
  The fields of a \<^verbatim>\<open>StorageTransport\<close>. \<open>gaxiosInstance\<close>
  is a reference to a request engine (engines may be shared between transports); the
  \<^verbatim>\<open>authClient\<close> is a collaborator and lives in the environment.
\<close>

record 'a StorageTransport =
  providedUserAgent :: "string option"
  retryOptions :: "'a RetryOptions"
  baseUrl :: string
  timeout :: "real option"
  projectId :: "string option"
  useAuthWithCustomEndpoint :: "bool option"
  gaxiosInstance :: nat

text \<open>
  The constructor copies the options into the fields. \<open>fresh\<close> is the
  reference of the engine \<^verbatim>\<open>new Gaxios()\<close> creates when the
  options bring none; the \<^verbatim>\<open>GoogleAuth\<close> client it sets up is the
  auth client of the environment.
\<close>

record 'a TransportParameters =
  options_gaxiosInstance :: "nat option"
  options_userAgent :: "string option"
  options_retryOptions :: "'a RetryOptions"
  options_baseUrl :: string
  options_timeout :: "real option"
  options_projectId :: "string option"
  options_useAuthWithCustomEndpoint :: "bool option"

definition StorageTransport_constructor ::
  "'a TransportParameters \<Rightarrow> nat \<Rightarrow> 'a StorageTransport" where
  "StorageTransport_constructor options fresh =
     \<lparr>providedUserAgent = options_userAgent options,
      retryOptions = options_retryOptions options,
      baseUrl = options_baseUrl options,
      timeout = options_timeout options,
      projectId = options_projectId options,
      useAuthWithCustomEndpoint = options_useAuthWithCustomEndpoint options,
      gaxiosInstance =
        (case options_gaxiosInstance options of Some engine \<Rightarrow> engine | None \<Rightarrow> fresh)\<rparr>"

text \<open>
  The request descriptor (\<^verbatim>\<open>StorageRequestOptions\<close>, which extends
  \<^verbatim>\<open>GaxiosOptions\<close>). \<open>None\<close> is an absent property;
  \<^verbatim>\<open>makeRequest\<close> reads these fields through truthiness tests and
  default parameters only, which do not tell an absent property from one holding
  \<^verbatim>\<open>undefined\<close>. For \<open>opt_retryConfig\<close> the two differ in the
  object spread, so \<open>Some None\<close> is an own property holding
  \<^verbatim>\<open>undefined\<close>. \<open>opt_url\<close> is the
  \<^verbatim>\<open>toString()\<close> of the url, \<open>opt_headers\<close> the entries
  of the headers init, an interceptor is given by its object identity, and
  \<open>opt_gccl_gcs_cmd\<close> is the property under the key
  \<^verbatim>\<open>GCCL_GCS_CMD_KEY\<close> (a constant of
  \<^verbatim>\<open>./nodejs-common/util\<close>, not among the sources).
\<close>

record ('a, 'n) StorageRequestOptions =
  opt_method :: "string option"
  opt_url :: "string option"
  opt_headers :: "(string \<times> string) list option"
  opt_body :: "string option"
  opt_timeout :: "real option"
  opt_retryConfig :: "'a retryConfig option option"
  opt_gccl_gcs_cmd :: "string option"
  opt_interceptors :: "nat list option"
  opt_autoPaginate :: "bool option"
  opt_autoPaginateVal :: "bool option"
  opt_maxRetries :: "nat option"
  opt_objectMode :: "bool option"
  opt_projectId :: "string option"
  opt_queryParameters :: "(string \<times> 'n qp_value) list option"
  opt_shouldReturnStream :: "bool option"

text \<open>
  The config handed to \<^verbatim>\<open>authClient.request\<close> is built by an object
  literal with a spread, so it is a map from property keys to values: a later entry of
  the literal overrides an earlier one with the same key.
\<close>

datatype key =
  K_retryConfig | K_method | K_url | K_headers | K_body | K_timeout | K_gccl_gcs_cmd
  | K_interceptors | K_autoPaginate | K_autoPaginateVal | K_maxRetries | K_objectMode
  | K_projectId | K_queryParameters | K_shouldReturnStream

datatype ('a, 'n) val =
  V_undefined
  | V_string string
  | V_number real
  | V_boolean bool
  | V_retryConfig "'a retryConfig"
  | V_HeadersInit "(string \<times> string) list"
  | V_Headers headers
  | V_URL URL
  | V_interceptors "nat list"
  | V_queryParameters "(string \<times> 'n qp_value) list"

type_synonym ('a, 'n) config = "key \<rightharpoonup> ('a, 'n) val"

text \<open>\<^verbatim>\<open>...reqOpts\<close>: the own properties of the descriptor.\<close>

fun spread :: "('a, 'n) StorageRequestOptions \<Rightarrow> ('a, 'n) config" where
  "spread r K_retryConfig =
     map_option (\<lambda>v. case v of None \<Rightarrow> V_undefined | Some rc \<Rightarrow> V_retryConfig rc)
       (opt_retryConfig r)"
| "spread r K_method = map_option V_string (opt_method r)"
| "spread r K_url = map_option V_string (opt_url r)"
| "spread r K_headers = map_option V_HeadersInit (opt_headers r)"
| "spread r K_body = map_option V_string (opt_body r)"
| "spread r K_timeout = map_option V_number (opt_timeout r)"
| "spread r K_gccl_gcs_cmd = map_option V_string (opt_gccl_gcs_cmd r)"
| "spread r K_interceptors = map_option V_interceptors (opt_interceptors r)"
| "spread r K_autoPaginate = map_option V_boolean (opt_autoPaginate r)"
| "spread r K_autoPaginateVal = map_option V_boolean (opt_autoPaginateVal r)"
| "spread r K_maxRetries = map_option (\<lambda>n. V_number (real n)) (opt_maxRetries r)"
| "spread r K_objectMode = map_option V_boolean (opt_objectMode r)"
| "spread r K_projectId = map_option V_string (opt_projectId r)"
| "spread r K_queryParameters = map_option V_queryParameters (opt_queryParameters r)"
| "spread r K_shouldReturnStream = map_option V_boolean (opt_shouldReturnStream r)"

text \<open>
  What one call finds outside the transport: the URL parser of the runtime and its
  \<^verbatim>\<open>Number::toString\<close>, the helpers
  of \<^verbatim>\<open>./util\<close> (not among the sources; each is a string computed
  without arguments), the UUID drawn by \<^verbatim>\<open>randomUUID()\<close>, and the
  auth client: the settlement of \<^verbatim>\<open>getProjectId()\<close> and, for every
  config, that of \<^verbatim>\<open>request(config)\<close>.
\<close>

record ('a, 'n) environment =
  URL_new :: "string \<Rightarrow> URL option"
  Number_toString :: "'n \<Rightarrow> string"
  util_getUserAgentString :: string
  util_getRuntimeTrackingString :: string
  util_getModuleFormat :: string
  randomUUID :: string
  authClient_getProjectId :: "'a js_error + string"
  authClient_request :: "('a, 'n) config \<Rightarrow> 'a js_error + 'a response"

text \<open>
  The state shared by all transports of the process: the module variable
  \<^verbatim>\<open>let projectId: string\<close> (\<open>None\<close> while unassigned) and,
  for every request engine, its \<^verbatim>\<open>interceptors.request\<close>, a
  \<^verbatim>\<open>Set\<close> listed in insertion order.
\<close>

record module_state =
  module_projectId :: "string option"
  interceptors_request :: "nat \<Rightarrow> nat list"

definition Set_add :: "'x list \<Rightarrow> 'x \<Rightarrow> 'x list" where
  "Set_add s x = (if x \<in> set s then s else s @ [x])"

record ('a, 'n) outcome =
  callback_calls :: "'a callback_args list"
  returned_promise :: "'a settlement"
  dispatched :: "('a, 'n) config option"
  module_after :: module_state
  this_after :: "'a StorageTransport"
  reqOpts_after :: "('a, 'n) StorageRequestOptions"

subsection \<open>The private methods\<close>

text \<open>\<^verbatim>\<open>#getUserAgentString\<close>; a string is truthy when it is not empty.\<close>

definition getUserAgentString :: "('a, 'n) environment \<Rightarrow> 'a StorageTransport \<Rightarrow> string" where
  "getUserAgentString env this =
     (let userAgent = util_getUserAgentString env in
      case providedUserAgent this of
        None \<Rightarrow> userAgent
      | Some provided \<Rightarrow> if provided \<noteq> [] then provided @ '' '' @ userAgent else userAgent)"

text \<open>The value of the tracking header as \<^verbatim>\<open>#buildRequestHeaders\<close> writes it.\<close>

definition tracking_string :: "('a, 'n) environment \<Rightarrow> string" where
  "tracking_string env =
     util_getRuntimeTrackingString env @ '' gccl/7.16.0-'' @ util_getModuleFormat env
     @ '' gccl-invocation-id/'' @ randomUUID env"

text \<open>\<^verbatim>\<open>#buildRequestHeaders(requestHeaders = {})\<close>; \<open>None\<close>: a TypeError is thrown.\<close>

definition buildRequestHeaders ::
  "('a, 'n) environment \<Rightarrow> 'a StorageTransport \<Rightarrow> (string \<times> string) list option \<Rightarrow> headers option" where
  "buildRequestHeaders env this requestHeaders =
     (case Headers_new (case requestHeaders of None \<Rightarrow> [] | Some init \<Rightarrow> init) of
        None \<Rightarrow> None
      | Some headers \<Rightarrow>
          (case Headers_set headers ''User-Agent'' (getUserAgentString env this) of
             None \<Rightarrow> None
           | Some headers' \<Rightarrow> Headers_set headers' ''x-goog-api-client'' (tracking_string env)))"

text \<open>\<^verbatim>\<open>#buildRequestQueryParams\<close>\<close>

definition buildRequestQueryParams ::
  "('a, 'n) environment \<Rightarrow> (string \<times> 'n qp_value) list \<Rightarrow> string" where
  "buildRequestQueryParams env queryParameters =
     URLSearchParams_toString (URLSearchParams_new (Number_toString env) queryParameters)"

text \<open>\<^verbatim>\<open>#isValidUrl\<close>\<close>

definition isValidUrl :: "('a, 'n) environment \<Rightarrow> string \<Rightarrow> bool" where
  "isValidUrl env url = (case URL_new env url of Some u \<Rightarrow> True | None \<Rightarrow> False)"

text \<open>
  \<^verbatim>\<open>a !== b\<close> negated, for a query parameter value and a project id
  that is a string or \<^verbatim>\<open>undefined\<close>.
\<close>

fun strict_equal :: "'n qp_value \<Rightarrow> string option \<Rightarrow> bool" where
  "strict_equal (QString s) (Some p) = (s = p)"
| "strict_equal QUndefined None = True"
| "strict_equal v p = False"

fun of_projectId :: "string option \<Rightarrow> 'n qp_value" where
  "of_projectId None = QUndefined"
| "of_projectId (Some p) = QString p"

text \<open>
  \<^verbatim>\<open>#buildUrl(pathUri = '', queryParameters = {})\<close>, given the module
  variable \<^verbatim>\<open>projectId\<close> it reads. The first component is the URL
  (\<open>None\<close>: \<^verbatim>\<open>new URL\<close> threw a TypeError), the second the
  query parameter object after the assignment to its \<^verbatim>\<open>project\<close>
  property, which is made before the URL is parsed and is seen by the caller.
\<close>

definition buildUrl ::
  "('a, 'n) environment \<Rightarrow> 'a StorageTransport \<Rightarrow> string option \<Rightarrow> string option
   \<Rightarrow> (string \<times> 'n qp_value) list option \<Rightarrow> URL option \<times> (string \<times> 'n qp_value) list" where
  "buildUrl env this module_pid pathUri_arg queryParameters_arg =
     (let pathUri = (case pathUri_arg of None \<Rightarrow> [] | Some p \<Rightarrow> p);
          queryParameters = (case queryParameters_arg of None \<Rightarrow> [] | Some q \<Rightarrow> q);
          queryParameters' =
            (case map_of queryParameters ''project'' of
               None \<Rightarrow> queryParameters
             | Some project \<Rightarrow>
                 if \<not> strict_equal project (projectId this) \<or> \<not> strict_equal project module_pid
                 then AList.update ''project'' (of_projectId (projectId this)) queryParameters
                 else queryParameters);
          qp = buildRequestQueryParams env queryParameters';
          url = (if isValidUrl env pathUri then URL_new env pathUri
                 else URL_new env (baseUrl this @ pathUri))
      in (map_option (\<lambda>u. URL_set_search u qp) url, queryParameters'))"

subsection \<open>makeRequest\<close>

text \<open>
  Lines 118 to 126: the headers, with the command tag appended to the tracking header
  when the descriptor carries a truthy one. \<open>None\<close>: a TypeError is thrown, and
  since these lines stand before the \<^verbatim>\<open>try\<close> it rejects the promise
  of the call. A \<^verbatim>\<open>get\<close> that finds nothing gives
  \<^verbatim>\<open>null\<close>, which the template prints as \<^verbatim>\<open>null\<close>.
\<close>

definition request_headers ::
  "('a, 'n) environment \<Rightarrow> 'a StorageTransport \<Rightarrow> ('a, 'n) StorageRequestOptions \<Rightarrow> headers option" where
  "request_headers env this reqOpts =
     (case buildRequestHeaders env this (opt_headers reqOpts) of
        None \<Rightarrow> None
      | Some headers \<Rightarrow>
          (case opt_gccl_gcs_cmd reqOpts of
             None \<Rightarrow> Some headers
           | Some cmd \<Rightarrow>
               if cmd \<noteq> []
               then Headers_set headers ''x-goog-api-client''
                      ((case Headers_get headers ''x-goog-api-client'' of
                          None \<Rightarrow> ''null''
                        | Some v \<Rightarrow> v)
                       @ '' gccl-gcs-cmd/'' @ cmd)
               else Some headers))"

text \<open>Lines 127 to 132: an array is truthy, also the empty one.\<close>

definition install_interceptors ::
  "module_state \<Rightarrow> 'a StorageTransport \<Rightarrow> ('a, 'n) StorageRequestOptions \<Rightarrow> module_state" where
  "install_interceptors m this reqOpts =
     (case opt_interceptors reqOpts of
        None \<Rightarrow> m
      | Some interceptors \<Rightarrow>
          m\<lparr>interceptors_request :=
              (interceptors_request m)(gaxiosInstance this := foldl Set_add [] interceptors)\<rparr>)"

text \<open>
  The closure \<^verbatim>\<open>getProjectId\<close> of lines 135 to 139: the id it returns
  and the module state it leaves, or the error the lookup of the auth client rejects with.
\<close>

definition getProjectId ::
  "('a, 'n) environment \<Rightarrow> module_state \<Rightarrow> ('a, 'n) StorageRequestOptions
   \<Rightarrow> 'a js_error + (string \<times> module_state)" where
  "getProjectId env m reqOpts =
     (let lookup = (case authClient_getProjectId env of
                      Inl e \<Rightarrow> Inl e
                    | Inr p \<Rightarrow> Inr (p, m\<lparr>module_projectId := Some p\<rparr>))
      in case opt_projectId reqOpts of
           None \<Rightarrow> lookup
         | Some p \<Rightarrow> if p \<noteq> [] then Inr (p, m) else lookup)"

text \<open>
  Lines 161 to 165 with a callback:
  \<^verbatim>\<open>requestPromise.then(resp => callback(null, resp.data, resp))
  .catch(err => callback(err, null, err.response))\<close>.
  The \<^verbatim>\<open>catch\<close> handler also receives what the callback throws in the
  \<^verbatim>\<open>then\<close> handler.
\<close>

definition then_catch ::
  "'a callback \<Rightarrow> 'a js_error + 'a response \<Rightarrow> 'a callback_args list \<times> 'a settlement" where
  "then_catch callback requestPromise =
     (let on_error = (\<lambda>err. \<lparr>cb_err = Val err, cb_data = Null,
                              cb_fullResponse = or_undefined (error_response err)\<rparr>)
      in case requestPromise of
           Inr resp \<Rightarrow>
             (let c = \<lparr>cb_err = Null, cb_data = Val (data resp), cb_fullResponse = Val resp\<rparr>
              in case callback c of
                   None \<Rightarrow> ([c], Resolved Undefined)
                 | Some thrown \<Rightarrow>
                     (case callback (on_error thrown) of
                        None \<Rightarrow> ([c, on_error thrown], Resolved Undefined)
                      | Some thrown' \<Rightarrow> ([c, on_error thrown], Rejected thrown')))
         | Inl err \<Rightarrow>
             (case callback (on_error err) of
                None \<Rightarrow> ([on_error err], Resolved Undefined)
              | Some thrown \<Rightarrow> ([on_error err], Rejected thrown)))"

text \<open>
  Lines 166 to 169: \<^verbatim>\<open>if (callback) return callback(e); throw e\<close>.
\<close>

definition catch_block ::
  "'a callback option \<Rightarrow> 'a js_error \<Rightarrow> 'a callback_args list \<times> 'a settlement" where
  "catch_block callback e =
     (case callback of
        None \<Rightarrow> ([], Rejected e)
      | Some cb \<Rightarrow>
          (let c = \<lparr>cb_err = Val e, cb_data = Undefined, cb_fullResponse = Undefined\<rparr>
           in case cb c of
                None \<Rightarrow> ([c], Resolved Undefined)
              | Some thrown \<Rightarrow> ([c], Rejected thrown)))"

text \<open>
  What a call leaves behind: the callback invocations and the settlement of the returned
  promise, the config handed to \<^verbatim>\<open>authClient.request\<close> (if the
  call got there), and the module state, the transport and the descriptor after it.
\<close>

definition settled ::
  "'a callback_args list \<times> 'a settlement \<Rightarrow> ('a, 'n) config option \<Rightarrow> module_state
   \<Rightarrow> 'a StorageTransport \<Rightarrow> ('a, 'n) StorageRequestOptions \<Rightarrow> ('a, 'n) outcome" where
  "settled cs d m this reqOpts =
     \<lparr>callback_calls = fst cs, returned_promise = snd cs, dispatched = d,
      module_after = m, this_after = this, reqOpts_after = reqOpts\<rparr>"

text \<open>
  Lines 141 to 144:
  \<^verbatim>\<open>if (_projectId) { projectId = _projectId; this.projectId = projectId; }\<close>.
\<close>

definition cache_projectId ::
  "module_state \<Rightarrow> 'a StorageTransport \<Rightarrow> string \<Rightarrow> module_state \<times> 'a StorageTransport" where
  "cache_projectId m this pid =
     (if pid \<noteq> []
      then (let m' = m\<lparr>module_projectId := Some pid\<rparr>
            in (m', this\<lparr>projectId := module_projectId m'\<rparr>))
      else (m, this))"

text \<open>
  The object literal of lines 146 to 159, given the headers and the URL already built:
  \<^verbatim>\<open>{retryConfig: {...}, ...reqOpts, headers, url, timeout: this.timeout}\<close>.
\<close>

definition request_config ::
  "'a StorageTransport \<Rightarrow> ('a, 'n) StorageRequestOptions \<Rightarrow> headers \<Rightarrow> URL \<Rightarrow> ('a, 'n) config" where
  "request_config this reqOpts headers url =
     ([K_retryConfig \<mapsto> V_retryConfig
         \<lparr>retry = maxRetries (retryOptions this),
          noResponseRetries = maxRetries (retryOptions this),
          rc_maxRetryDelay = maxRetryDelay (retryOptions this),
          rc_retryDelayMultiplier = retryDelayMultiplier (retryOptions this),
          shouldRetry = retryableErrorFn (retryOptions this),
          rc_totalTimeout = totalTimeout (retryOptions this)\<rparr>]
      ++ spread reqOpts)
     (K_headers \<mapsto> V_Headers headers,
      K_url \<mapsto> V_URL url,
      K_timeout \<mapsto> (case timeout this of None \<Rightarrow> V_undefined | Some t \<Rightarrow> V_number t))"

text \<open>
  \<^verbatim>\<open>makeRequest(reqOpts, callback?)\<close>, from the module state \<open>m\<close>
  on the transport \<open>this\<close>. The descriptor's
  \<^verbatim>\<open>queryParameters\<close> object is shared with the config, so the
  assignment \<^verbatim>\<open>#buildUrl\<close> makes to it shows in both.
\<close>

definition makeRequest ::
  "('a, 'n) environment \<Rightarrow> module_state \<Rightarrow> 'a StorageTransport \<Rightarrow> ('a, 'n) StorageRequestOptions
   \<Rightarrow> 'a callback option \<Rightarrow> ('a, 'n) outcome" where
  "makeRequest env m this reqOpts callback =
     (case request_headers env this reqOpts of
        None \<Rightarrow> settled ([], Rejected TypeError) None m this reqOpts
      | Some headers \<Rightarrow>
          (let m1 = install_interceptors m this reqOpts in
           case getProjectId env m1 reqOpts of
             Inl e \<Rightarrow> settled (catch_block callback e) None m1 this reqOpts
           | Inr (pid, m2) \<Rightarrow>
               (case cache_projectId m2 this pid of
                  (m3, this') \<Rightarrow>
                    (case buildUrl env this' (module_projectId m3) (opt_url reqOpts)
                            (opt_queryParameters reqOpts) of
                       (url, queryParameters') \<Rightarrow>
                         (let reqOpts' =
                                reqOpts\<lparr>opt_queryParameters :=
                                  map_option (\<lambda>q. queryParameters')
                                    (opt_queryParameters reqOpts)\<rparr>
                          in case url of
                               None \<Rightarrow>
                                 settled (catch_block callback TypeError) None m3 this' reqOpts'
                             | Some url \<Rightarrow>
                                 (let config = request_config this' reqOpts' headers url;
                                      requestPromise = authClient_request env config
                                  in case callback of
                                       Some cb \<Rightarrow>
                                         settled (then_catch cb requestPromise) (Some config)
                                           m3 this' reqOpts'
                                     | None \<Rightarrow>
                                         settled
                                           ([], case requestPromise of
                                                  Inr resp \<Rightarrow> Resolved (Val (data resp))
                                                | Inl err \<Rightarrow> Rejected err)
                                           (Some config) m3 this' reqOpts'))))))"

subsection \<open>An example call\<close>

text \<open>
  The parser on the four strings the examples parse: a path without a scheme is no
  absolute URL, the other three are, the last of them with an opaque path that ends
  in two spaces. The one number of the examples is \<open>5\<close>.
\<close>

datatype example_number = Five

fun example_Number_toString :: "example_number \<Rightarrow> string" where
  "example_Number_toString Five = ''5''"

definition example_URL_new :: "string \<Rightarrow> URL option" where
  "example_URL_new s =
     map_of
       [(''https://storage.googleapis.com/storage/v1/b'',
         \<lparr>url_before_query = ''https://storage.googleapis.com/storage/v1/b'',
          url_query = None, url_fragment = None, url_special = True,
          url_opaque_path = False\<rparr>),
        (''https://example.com/b/o?alt=media'',
         \<lparr>url_before_query = ''https://example.com/b/o'',
          url_query = Some ''alt=media'', url_fragment = None, url_special = True,
          url_opaque_path = False\<rparr>),
        (''foo:bar  ?q=1'',
         \<lparr>url_before_query = ''foo:bar  '',
          url_query = Some ''q=1'', url_fragment = None, url_special = False,
          url_opaque_path = True\<rparr>)] s"

definition example_response :: "string response" where
  "example_response = \<lparr>data = ''{}'', status = 200\<rparr>"

definition example_env :: "(string, example_number) environment" where
  "example_env =
     \<lparr>URL_new = example_URL_new,
      Number_toString = example_Number_toString,
      util_getUserAgentString = ''gcloud-node-storage/7.16.0'',
      util_getRuntimeTrackingString = ''gl-node/18.20.0'',
      util_getModuleFormat = ''cjs'',
      randomUUID = ''0b1c2d3e-4f50-4a61-8b72-9c8d7e6f5a4b'',
      authClient_getProjectId = Inr ''correct-id'',
      authClient_request = (\<lambda>config. Inr example_response)\<rparr>"

definition example_transport :: "string StorageTransport" where
  "example_transport =
     \<lparr>providedUserAgent = Some ''my-app/1.0'',
      retryOptions = \<lparr>maxRetries = 3, maxRetryDelay = 64, retryDelayMultiplier = 2,
                      totalTimeout = 600, retryableErrorFn = (\<lambda>e. True)\<rparr>,
      baseUrl = ''https://storage.googleapis.com/storage/v1'',
      timeout = Some 60000,
      projectId = None,
      useAuthWithCustomEndpoint = None,
      gaxiosInstance = 0\<rparr>"

definition example_module :: module_state where
  "example_module =
     \<lparr>module_projectId = Some ''auth-id'', interceptors_request = (\<lambda>g. [1, 2])\<rparr>"

definition example_reqOpts :: "(string, example_number) StorageRequestOptions" where
  "example_reqOpts =
     \<lparr>opt_method = Some ''GET'',
      opt_url = Some ''/b'',
      opt_headers = Some [(''X-Custom'', ''1'')],
      opt_body = None,
      opt_timeout = Some 5,
      opt_retryConfig = None,
      opt_gccl_gcs_cmd = Some ''storage.buckets.list'',
      opt_interceptors = Some [7, 8],
      opt_autoPaginate = None,
      opt_autoPaginateVal = None,
      opt_maxRetries = None,
      opt_objectMode = None,
      opt_projectId = None,
      opt_queryParameters = Some [(''project'', QString ''wrong-id''), (''maxResults'', QNumber Five)],
      opt_shouldReturnStream = None\<rparr>"

text \<open>A lookup of the project id that fails with an error carrying a response.\<close>

definition example_lookup_error :: "string js_error" where
  "example_lookup_error = Error ''metadata lookup failed'' (Some \<lparr>data = ''denied'', status = 403\<rparr>)"

definition example_env_no_project :: "(string, example_number) environment" where
  "example_env_no_project = example_env\<lparr>authClient_getProjectId := Inl example_lookup_error\<rparr>"

definition example_callback :: "string callback" where
  "example_callback args = None"

definition example_headers :: headers where
  "example_headers =
     [''x-custom'' \<mapsto> ''1'',
      ''user-agent'' \<mapsto> ''my-app/1.0 gcloud-node-storage/7.16.0'',
      ''x-goog-api-client'' \<mapsto>
        ''gl-node/18.20.0 gccl/7.16.0-cjs gccl-invocation-id/0b1c2d3e-4f50-4a61-8b72-9c8d7e6f5a4b gccl-gcs-cmd/storage.buckets.list'']"

definition example_url :: URL where
  "example_url =
     \<lparr>url_before_query = ''https://storage.googleapis.com/storage/v1/b'',
      url_query = Some ''project=correct-id&maxResults=5'', url_fragment = None, url_special = True,
          url_opaque_path = False\<rparr>"

definition example_this' :: "string StorageTransport" where
  "example_this' = example_transport\<lparr>projectId := Some ''correct-id''\<rparr>"

definition example_module' :: module_state where
  "example_module' =
     \<lparr>module_projectId = Some ''correct-id'',
      interceptors_request = (\<lambda>g. [1, 2])(0 := [7, 8])\<rparr>"

definition example_reqOpts' :: "(string, example_number) StorageRequestOptions" where
  "example_reqOpts' =
     example_reqOpts\<lparr>opt_queryParameters :=
       Some [(''project'', QString ''correct-id''), (''maxResults'', QNumber Five)]\<rparr>"

definition example_config :: "(string, example_number) config" where
  "example_config = request_config example_this' example_reqOpts' example_headers example_url"

definition example_own_retryConfig :: "string retryConfig" where
  "example_own_retryConfig =
     \<lparr>retry = 0, noResponseRetries = 0, rc_maxRetryDelay = 1, rc_retryDelayMultiplier = 1,
      shouldRetry = (\<lambda>e. False), rc_totalTimeout = 1\<rparr>"

definition example_reqOpts_own_retry :: "(string, example_number) StorageRequestOptions" where
  "example_reqOpts_own_retry =
     example_reqOpts\<lparr>opt_retryConfig := Some (Some example_own_retryConfig)\<rparr>"

definition example_reqOpts_absolute :: "(string, example_number) StorageRequestOptions" where
  "example_reqOpts_absolute =
     example_reqOpts\<lparr>opt_url := Some ''https://example.com/b/o?alt=media'',
                      opt_queryParameters := None\<rparr>"

definition example_reqOpts_opaque :: "(string, example_number) StorageRequestOptions" where
  "example_reqOpts_opaque =
     example_reqOpts\<lparr>opt_url := Some ''foo:bar  ?q=1'', opt_queryParameters := None\<rparr>"

definition example_reqOpts_explicit :: "(string, example_number) StorageRequestOptions" where
  "example_reqOpts_explicit = example_reqOpts\<lparr>opt_projectId := Some ''override''\<rparr>"

section \<open>The paths through makeRequest\<close>

lemma makeRequest_headers_throw:
  assumes "request_headers env this reqOpts = None"
  shows "makeRequest env m this reqOpts callback =
           settled ([], Rejected TypeError) None m this reqOpts"
  using assms by (simp add: makeRequest_def)

lemma makeRequest_lookup_fails:
  assumes "request_headers env this reqOpts = Some headers"
    and "getProjectId env (install_interceptors m this reqOpts) reqOpts = Inl e"
  shows "makeRequest env m this reqOpts callback =
           settled (catch_block callback e) None (install_interceptors m this reqOpts) this reqOpts"
  using assms by (simp add: makeRequest_def)

lemma makeRequest_url_throws:
  assumes "request_headers env this reqOpts = Some headers"
    and "getProjectId env (install_interceptors m this reqOpts) reqOpts = Inr (pid, m2)"
    and "cache_projectId m2 this pid = (m3, this')"
    and "buildUrl env this' (module_projectId m3) (opt_url reqOpts) (opt_queryParameters reqOpts)
           = (None, qp')"
  shows "makeRequest env m this reqOpts callback =
           settled (catch_block callback TypeError) None m3 this'
             (reqOpts\<lparr>opt_queryParameters := map_option (\<lambda>q. qp') (opt_queryParameters reqOpts)\<rparr>)"
  using assms by (simp add: makeRequest_def)

lemma makeRequest_dispatches:
  assumes "request_headers env this reqOpts = Some headers"
    and "getProjectId env (install_interceptors m this reqOpts) reqOpts = Inr (pid, m2)"
    and "cache_projectId m2 this pid = (m3, this')"
    and "buildUrl env this' (module_projectId m3) (opt_url reqOpts) (opt_queryParameters reqOpts)
           = (Some url, qp')"
    and "reqOpts' = reqOpts\<lparr>opt_queryParameters := map_option (\<lambda>q. qp') (opt_queryParameters reqOpts)\<rparr>"
    and "config = request_config this' reqOpts' headers url"
  shows "makeRequest env m this reqOpts callback =
           settled
             (case callback of
                Some cb \<Rightarrow> then_catch cb (authClient_request env config)
              | None \<Rightarrow> ([], case authClient_request env config of
                                 Inr resp \<Rightarrow> Resolved (Val (data resp))
                               | Inl err \<Rightarrow> Rejected err))
             (Some config) m3 this' reqOpts'"
  using assms by (simp add: makeRequest_def Let_def split: option.splits)

lemma dispatchedE:
  assumes "dispatched (makeRequest env m this reqOpts callback) = Some config"
  obtains headers pid m2 m3 this' url qp' reqOpts' where
    "request_headers env this reqOpts = Some headers"
    "getProjectId env (install_interceptors m this reqOpts) reqOpts = Inr (pid, m2)"
    "cache_projectId m2 this pid = (m3, this')"
    "buildUrl env this' (module_projectId m3) (opt_url reqOpts) (opt_queryParameters reqOpts)
           = (Some url, qp')"
    "reqOpts' = reqOpts\<lparr>opt_queryParameters := map_option (\<lambda>q. qp') (opt_queryParameters reqOpts)\<rparr>"
    "config = request_config this' reqOpts' headers url"
proof (cases "request_headers env this reqOpts")
  case None
  with assms show ?thesis by (simp add: makeRequest_headers_throw settled_def)
next
  case (Some headers)
  note hs = this
  show ?thesis
  proof (cases "getProjectId env (install_interceptors m this reqOpts) reqOpts")
    case (Inl e)
    with assms hs show ?thesis by (simp add: makeRequest_lookup_fails settled_def)
  next
    case (Inr r)
    obtain pid m2 where r: "r = (pid, m2)" by (cases r)
    obtain m3 this' where c: "cache_projectId m2 this pid = (m3, this')"
      by (cases "cache_projectId m2 this pid")
    obtain u qp' where b: "buildUrl env this' (module_projectId m3) (opt_url reqOpts)
        (opt_queryParameters reqOpts) = (u, qp')"
      by (cases "buildUrl env this' (module_projectId m3) (opt_url reqOpts)
        (opt_queryParameters reqOpts)")
    show ?thesis
    proof (cases u)
      case None
      with assms makeRequest_url_throws[OF hs Inr[unfolded r] c b[unfolded None]]
      show ?thesis by (simp add: settled_def)
    next
      case (Some url)
      from assms makeRequest_dispatches[OF hs Inr[unfolded r] c b[unfolded Some] refl refl]
      have "config = request_config this'
        (reqOpts\<lparr>opt_queryParameters := map_option (\<lambda>q. qp') (opt_queryParameters reqOpts)\<rparr>)
        headers url"
        by (simp add: settled_def)
      with that[OF hs Inr[unfolded r] c b[unfolded Some] refl] show ?thesis by simp
    qed
  qed
qed

lemma dispatched_headers_assembled:
  assumes "dispatched (makeRequest env m this reqOpts callback) = Some config"
  shows "request_headers env this reqOpts \<noteq> None"
  using assms by (rule dispatchedE) simp

lemma makeRequest_after:
  assumes "dispatched (makeRequest env m this reqOpts callback) = Some config"
  obtains headers pid m2 url qp' where
    "request_headers env this reqOpts = Some headers"
    "getProjectId env (install_interceptors m this reqOpts) reqOpts = Inr (pid, m2)"
    "cache_projectId m2 this pid =
       (module_after (makeRequest env m this reqOpts callback),
        this_after (makeRequest env m this reqOpts callback))"
    "buildUrl env (this_after (makeRequest env m this reqOpts callback))
       (module_projectId (module_after (makeRequest env m this reqOpts callback)))
       (opt_url reqOpts) (opt_queryParameters reqOpts) = (Some url, qp')"
    "reqOpts_after (makeRequest env m this reqOpts callback) =
       reqOpts\<lparr>opt_queryParameters := map_option (\<lambda>q. qp') (opt_queryParameters reqOpts)\<rparr>"
    "config = request_config (this_after (makeRequest env m this reqOpts callback))
                (reqOpts_after (makeRequest env m this reqOpts callback)) headers url"
proof -
  from assms obtain headers pid m2 m3 this' url qp' reqOpts' where
    h: "request_headers env this reqOpts = Some headers"
    and g: "getProjectId env (install_interceptors m this reqOpts) reqOpts = Inr (pid, m2)"
    and c: "cache_projectId m2 this pid = (m3, this')"
    and b: "buildUrl env this' (module_projectId m3) (opt_url reqOpts)
              (opt_queryParameters reqOpts) = (Some url, qp')"
    and r: "reqOpts' = reqOpts\<lparr>opt_queryParameters :=
              map_option (\<lambda>q. qp') (opt_queryParameters reqOpts)\<rparr>"
    and k: "config = request_config this' reqOpts' headers url"
    by (rule dispatchedE)
  have out: "module_after (makeRequest env m this reqOpts callback) = m3"
    "this_after (makeRequest env m this reqOpts callback) = this'"
    "reqOpts_after (makeRequest env m this reqOpts callback) = reqOpts'"
    by (simp_all add: makeRequest_dispatches[OF h g c b r k] settled_def)
  show ?thesis
    using that[OF h g] c b r k out by simp
qed

lemma cache_projectId_keeps:
  assumes "cache_projectId m this pid = (m', this')"
  shows "timeout this' = timeout this" and "retryOptions this' = retryOptions this"
    and "baseUrl this' = baseUrl this" and "providedUserAgent this' = providedUserAgent this"
    and "gaxiosInstance this' = gaxiosInstance this"
    and "interceptors_request m' = interceptors_request m"
  using assms by (auto simp: cache_projectId_def Let_def split: if_splits)

section \<open>The example call, evaluated\<close>

lemmas example_defs =
  example_env_def example_transport_def example_reqOpts_def example_module_def
  example_URL_new_def example_this'_def example_module'_def example_reqOpts'_def
  example_url_def

lemmas headers_eval =
  request_headers_def buildRequestHeaders_def Headers_new_def Headers_set_def
  Headers_append_def Headers_get_def normalize_value_def strip_trailing_def
  is_http_whitespace_def is_header_name_def is_header_value_def is_token_char_def
  lowercase_def ascii_lowercase_def getUserAgentString_def tracking_string_def

lemmas url_eval =
  buildUrl_def isValidUrl_def buildRequestQueryParams_def URLSearchParams_toString_def
  URLSearchParams_new_def urlencode_def urlencode_byte_def percent_encode_byte_def
  urlencoded_keep_def hex_digit_def URL_set_search_def query_percent_encode_def
  in_query_percent_encode_set_def is_tab_or_newline_def strip_trailing_spaces_def

lemma example_request_headers:
  "request_headers example_env example_transport example_reqOpts = Some example_headers"
  by (simp add: headers_eval example_defs example_headers_def)

lemma example_getProjectId:
  "getProjectId example_env
     (install_interceptors example_module example_transport example_reqOpts) example_reqOpts
   = Inr (''correct-id'', example_module')"
  by (simp add: getProjectId_def install_interceptors_def Set_add_def example_defs)

lemma example_cache_projectId:
  "cache_projectId example_module' example_transport ''correct-id''
   = (example_module', example_this')"
  by (simp add: cache_projectId_def example_defs)

lemma example_buildUrl:
  "buildUrl example_env example_this' (module_projectId example_module')
     (opt_url example_reqOpts) (opt_queryParameters example_reqOpts)
   = (Some example_url, [(''project'', QString ''correct-id''), (''maxResults'', QNumber Five)])"
  by (simp add: url_eval example_defs)

lemma example_makeRequest:
  "makeRequest example_env example_module example_transport example_reqOpts callback =
     settled
       (case callback of
          Some cb \<Rightarrow> then_catch cb (Inr example_response)
        | None \<Rightarrow> ([], Resolved (Val (data example_response))))
       (Some example_config) example_module' example_this' example_reqOpts'"
proof -
  have r: "example_reqOpts' = example_reqOpts\<lparr>opt_queryParameters :=
      map_option (\<lambda>q. [(''project'', QString ''correct-id''), (''maxResults'', QNumber Five)])
        (opt_queryParameters example_reqOpts)\<rparr>"
    by (simp add: example_reqOpts'_def example_reqOpts_def)
  have a: "authClient_request example_env c = Inr example_response" for c
    by (simp add: example_env_def)
  show ?thesis
    using makeRequest_dispatches[OF example_request_headers example_getProjectId
        example_cache_projectId example_buildUrl r example_config_def, of callback]
    by (cases callback) (simp_all add: a)
qed

lemma example_dispatched:
  "dispatched (makeRequest example_env example_module example_transport example_reqOpts callback)
   = Some example_config"
  by (simp add: example_makeRequest settled_def)

section \<open>The config of the dispatch\<close>

text \<open>
  C10. The config handed to \<^verbatim>\<open>authClient.request\<close> holds, under
  \<^verbatim>\<open>headers\<close>, \<^verbatim>\<open>url\<close> and
  \<^verbatim>\<open>timeout\<close>, the Headers object the transport assembled, the URL
  object \<^verbatim>\<open>#buildUrl\<close> returned and the timeout of the transport: the
  three entries stand after the spread of the descriptor, so they replace what the spread
  copied under these keys.
\<close>

theorem config_headers_url_timeout_override:
  assumes "dispatched (makeRequest env m this reqOpts callback) = Some config"
  shows "\<exists>headers url queryParameters'.
           request_headers env this reqOpts = Some headers
           \<and> buildUrl env (this_after (makeRequest env m this reqOpts callback))
                 (module_projectId (module_after (makeRequest env m this reqOpts callback)))
                 (opt_url reqOpts) (opt_queryParameters reqOpts) = (Some url, queryParameters')
           \<and> config K_headers = Some (V_Headers headers)
           \<and> config K_url = Some (V_URL url)
           \<and> config K_timeout =
                 Some (case timeout this of None \<Rightarrow> V_undefined | Some t \<Rightarrow> V_number t)
           \<and> config K_headers \<noteq> spread reqOpts K_headers
           \<and> config K_url \<noteq> spread reqOpts K_url"
proof -
  from assms obtain headers pid m2 url qp' where
    h: "request_headers env this reqOpts = Some headers"
    and c: "cache_projectId m2 this pid =
       (module_after (makeRequest env m this reqOpts callback),
        this_after (makeRequest env m this reqOpts callback))"
    and b: "buildUrl env (this_after (makeRequest env m this reqOpts callback))
       (module_projectId (module_after (makeRequest env m this reqOpts callback)))
       (opt_url reqOpts) (opt_queryParameters reqOpts) = (Some url, qp')"
    and k: "config = request_config (this_after (makeRequest env m this reqOpts callback))
                (reqOpts_after (makeRequest env m this reqOpts callback)) headers url"
    by (rule makeRequest_after)
  have t: "timeout (this_after (makeRequest env m this reqOpts callback)) = timeout this"
    by (rule cache_projectId_keeps(1)[OF c])
  have "config K_headers = Some (V_Headers headers)" "config K_url = Some (V_URL url)"
    "config K_timeout = Some (case timeout this of None \<Rightarrow> V_undefined | Some t \<Rightarrow> V_number t)"
    by (simp_all add: k request_config_def t)
  moreover have "Some (V_Headers headers) \<noteq> spread reqOpts K_headers"
    "Some (V_URL url) \<noteq> spread reqOpts K_url"
    by (cases "opt_headers reqOpts"; simp) (cases "opt_url reqOpts"; simp)
  ultimately show ?thesis using h b by simp
qed

theorem config_headers_url_timeout_override_witness:
  "dispatched (makeRequest example_env example_module example_transport example_reqOpts None)
     = Some example_config
   \<and> example_config K_headers = Some (V_Headers example_headers)
   \<and> example_config K_url = Some (V_URL example_url)
   \<and> example_config K_timeout = Some (V_number 60000)
   \<and> spread example_reqOpts K_timeout = Some (V_number 5)
   \<and> spread example_reqOpts K_url = Some (V_string ''/b'')
   \<and> spread example_reqOpts K_headers = Some (V_HeadersInit [(''X-Custom'', ''1'')])"
proof -
  note d = example_dispatched[of None]
  have t: "timeout example_transport = Some 60000"
    by (simp add: example_transport_def)
  from config_headers_url_timeout_override[OF d]
  have main: "example_config K_timeout = Some (V_number 60000)"
    by (auto simp: t)
  have rest: "example_config K_headers = Some (V_Headers example_headers)"
    "example_config K_url = Some (V_URL example_url)"
    "spread example_reqOpts K_timeout = Some (V_number 5)"
    "spread example_reqOpts K_url = Some (V_string ''/b'')"
    "spread example_reqOpts K_headers = Some (V_HeadersInit [(''X-Custom'', ''1'')])"
    by (simp_all add: example_config_def request_config_def example_reqOpts_def)
  show ?thesis using d main rest by simp
qed

section \<open>The retry policy of the dispatch\<close>

lemma example_own_retry_makeRequest:
  "makeRequest example_env example_module example_transport example_reqOpts_own_retry None =
     settled ([], Resolved (Val (data example_response)))
       (Some (request_config example_this'
                (example_reqOpts'\<lparr>opt_retryConfig := Some (Some example_own_retryConfig)\<rparr>)
                example_headers example_url))
       example_module' example_this'
       (example_reqOpts'\<lparr>opt_retryConfig := Some (Some example_own_retryConfig)\<rparr>)"
proof -
  have h: "request_headers example_env example_transport example_reqOpts_own_retry
           = Some example_headers"
    using example_request_headers
    by (simp add: request_headers_def example_reqOpts_own_retry_def cong: option.case_cong)
  have g: "getProjectId example_env
             (install_interceptors example_module example_transport example_reqOpts_own_retry)
             example_reqOpts_own_retry = Inr (''correct-id'', example_module')"
    using example_getProjectId
    by (simp add: getProjectId_def install_interceptors_def example_reqOpts_own_retry_def)
  have b: "buildUrl example_env example_this' (module_projectId example_module')
             (opt_url example_reqOpts_own_retry) (opt_queryParameters example_reqOpts_own_retry)
           = (Some example_url, [(''project'', QString ''correct-id''), (''maxResults'', QNumber Five)])"
    using example_buildUrl by (simp add: example_reqOpts_own_retry_def)
  have r: "example_reqOpts'\<lparr>opt_retryConfig := Some (Some example_own_retryConfig)\<rparr>
           = example_reqOpts_own_retry\<lparr>opt_queryParameters :=
               map_option (\<lambda>q. [(''project'', QString ''correct-id''), (''maxResults'', QNumber Five)])
                 (opt_queryParameters example_reqOpts_own_retry)\<rparr>"
    by (simp add: example_reqOpts'_def example_reqOpts_def example_reqOpts_own_retry_def)
  have a: "authClient_request example_env c = Inr example_response" for c
    by (simp add: example_env_def)
  show ?thesis
    using makeRequest_dispatches[OF h g example_cache_projectId b r refl, of None]
    by (simp add: a)
qed

text \<open>
  C6, as the claim states it, fails: a descriptor that carries a
  \<^verbatim>\<open>retryConfig\<close> of its own (it is a
  \<^verbatim>\<open>GaxiosOptions\<close>) has it spread over the entry the transport
  wrote first, so the engine gets \<open>retry = 0\<close> from a transport configured with
  \<open>maxRetries = 3\<close>.
\<close>

theorem retry_policy_counterexample:
  "dispatched (makeRequest example_env example_module example_transport
                 example_reqOpts_own_retry None) \<noteq> None
   \<and> the (dispatched (makeRequest example_env example_module example_transport
                 example_reqOpts_own_retry None)) K_retryConfig
       = Some (V_retryConfig example_own_retryConfig)
   \<and> retry example_own_retryConfig = 0
   \<and> maxRetries (retryOptions example_transport) = 3"
proof -
  have "retry example_own_retryConfig = 0" "maxRetries (retryOptions example_transport) = 3"
    by (simp_all add: example_own_retryConfig_def example_transport_def)
  then show ?thesis
    by (simp add: example_own_retry_makeRequest settled_def request_config_def)
qed

text \<open>
  C6, amended. The \<^verbatim>\<open>retryConfig\<close> of the dispatched config is the one
  built from the transport's \<^verbatim>\<open>RetryOptions\<close>
  (\<open>retry\<close> and \<open>noResponseRetries\<close> both \<open>maxRetries\<close>, the
  other four fields copied) whenever the descriptor has no
  \<^verbatim>\<open>retryConfig\<close> property of its own; a descriptor's own property
  replaces it. The config also carries the descriptor's method and body, the assembled
  headers, the built URL and the transport's timeout.
\<close>

theorem retry_policy_of_dispatch:
  assumes "dispatched (makeRequest env m this reqOpts callback) = Some config"
  shows "config K_retryConfig =
           (case opt_retryConfig reqOpts of
              None \<Rightarrow>
                Some (V_retryConfig
                  \<lparr>retry = maxRetries (retryOptions this),
                   noResponseRetries = maxRetries (retryOptions this),
                   rc_maxRetryDelay = maxRetryDelay (retryOptions this),
                   rc_retryDelayMultiplier = retryDelayMultiplier (retryOptions this),
                   shouldRetry = retryableErrorFn (retryOptions this),
                   rc_totalTimeout = totalTimeout (retryOptions this)\<rparr>)
            | Some own \<Rightarrow>
                Some (case own of None \<Rightarrow> V_undefined | Some rc \<Rightarrow> V_retryConfig rc))
         \<and> config K_method = map_option V_string (opt_method reqOpts)
         \<and> config K_body = map_option V_string (opt_body reqOpts)
         \<and> config K_headers = map_option V_Headers (request_headers env this reqOpts)
         \<and> config K_url =
               map_option V_URL
                 (fst (buildUrl env (this_after (makeRequest env m this reqOpts callback))
                         (module_projectId (module_after (makeRequest env m this reqOpts callback)))
                         (opt_url reqOpts) (opt_queryParameters reqOpts)))
         \<and> config K_timeout =
               Some (case timeout this of None \<Rightarrow> V_undefined | Some t \<Rightarrow> V_number t)"
proof -
  from assms obtain headers pid m2 url qp' where
    h: "request_headers env this reqOpts = Some headers"
    and c: "cache_projectId m2 this pid =
       (module_after (makeRequest env m this reqOpts callback),
        this_after (makeRequest env m this reqOpts callback))"
    and b: "buildUrl env (this_after (makeRequest env m this reqOpts callback))
       (module_projectId (module_after (makeRequest env m this reqOpts callback)))
       (opt_url reqOpts) (opt_queryParameters reqOpts) = (Some url, qp')"
    and r: "reqOpts_after (makeRequest env m this reqOpts callback) =
       reqOpts\<lparr>opt_queryParameters := map_option (\<lambda>q. qp') (opt_queryParameters reqOpts)\<rparr>"
    and k: "config = request_config (this_after (makeRequest env m this reqOpts callback))
                (reqOpts_after (makeRequest env m this reqOpts callback)) headers url"
    by (rule makeRequest_after)
  note keeps = cache_projectId_keeps(1,2)[OF c]
  have "config K_retryConfig =
           (case opt_retryConfig reqOpts of
              None \<Rightarrow>
                Some (V_retryConfig
                  \<lparr>retry = maxRetries (retryOptions this),
                   noResponseRetries = maxRetries (retryOptions this),
                   rc_maxRetryDelay = maxRetryDelay (retryOptions this),
                   rc_retryDelayMultiplier = retryDelayMultiplier (retryOptions this),
                   shouldRetry = retryableErrorFn (retryOptions this),
                   rc_totalTimeout = totalTimeout (retryOptions this)\<rparr>)
            | Some own \<Rightarrow>
                Some (case own of None \<Rightarrow> V_undefined | Some rc \<Rightarrow> V_retryConfig rc))"
    by (cases "opt_retryConfig reqOpts") (simp_all add: k r request_config_def keeps map_add_def)
  moreover have "config K_method = map_option V_string (opt_method reqOpts)"
    "config K_body = map_option V_string (opt_body reqOpts)"
    by (simp_all add: k r request_config_def map_add_def split: option.splits)
  moreover have "config K_headers = map_option V_Headers (request_headers env this reqOpts)"
    "config K_url =
               map_option V_URL
                 (fst (buildUrl env (this_after (makeRequest env m this reqOpts callback))
                         (module_projectId (module_after (makeRequest env m this reqOpts callback)))
                         (opt_url reqOpts) (opt_queryParameters reqOpts)))"
    "config K_timeout =
               Some (case timeout this of None \<Rightarrow> V_undefined | Some t \<Rightarrow> V_number t)"
    by (simp_all add: k h b request_config_def keeps)
  ultimately show ?thesis by simp
qed

theorem retry_policy_of_dispatch_witness:
  "dispatched (makeRequest example_env example_module example_transport example_reqOpts None)
     = Some example_config
   \<and> opt_retryConfig example_reqOpts = None
   \<and> example_config K_retryConfig =
        Some (V_retryConfig
          \<lparr>retry = 3, noResponseRetries = 3, rc_maxRetryDelay = 64,
           rc_retryDelayMultiplier = 2, shouldRetry = (\<lambda>e. True), rc_totalTimeout = 600\<rparr>)
   \<and> example_config K_method = Some (V_string ''GET'')
   \<and> example_config K_body = None"
proof -
  note d = example_dispatched[of None]
  have o: "opt_retryConfig example_reqOpts = None" "opt_method example_reqOpts = Some ''GET''"
    "opt_body example_reqOpts = None"
    by (simp_all add: example_reqOpts_def)
  have t: "retryOptions example_transport =
             \<lparr>maxRetries = 3, maxRetryDelay = 64, retryDelayMultiplier = 2,
              totalTimeout = 600, retryableErrorFn = (\<lambda>e. True)\<rparr>"
    by (simp add: example_transport_def)
  from retry_policy_of_dispatch[OF d]
  have "example_config K_retryConfig =
        Some (V_retryConfig
          \<lparr>retry = 3, noResponseRetries = 3, rc_maxRetryDelay = 64,
           rc_retryDelayMultiplier = 2, shouldRetry = (\<lambda>e. True), rc_totalTimeout = 600\<rparr>)"
    "example_config K_method = Some (V_string ''GET'')"
    "example_config K_body = None"
    by (simp_all add: o t)
  then show ?thesis using d o by simp
qed

section \<open>Interceptors\<close>

lemma set_foldl_Set_add: "set (foldl Set_add acc xs) = set acc \<union> set xs"
  by (induction xs arbitrary: acc) (auto simp: Set_add_def)

lemma foldl_Set_add_distinct:
  "distinct (acc @ xs) \<Longrightarrow> foldl Set_add acc xs = acc @ xs"
  by (induction xs arbitrary: acc) (auto simp: Set_add_def)

text \<open>
  A \<^verbatim>\<open>Set\<close> filled from a list holds each element once, at the place
  of its first occurrence.
\<close>

lemma foldl_Set_add_remdups:
  "distinct acc \<Longrightarrow> foldl Set_add acc xs = rev (remdups (rev xs @ rev acc))"
proof (induction xs arbitrary: acc)
  case Nil
  then show ?case by (simp add: distinct_remdups_id)
next
  case (Cons x xs)
  show ?case
  proof (cases "x \<in> set acc")
    case True
    have "remdups (rev xs @ x # rev acc) = remdups (rev xs @ remdups (x # rev acc))"
      by (simp only: remdups_append2)
    also have "\<dots> = remdups (rev xs @ remdups (rev acc))"
      using True by simp
    also have "\<dots> = remdups (rev xs @ rev acc)"
      by (simp only: remdups_append2)
    finally show ?thesis
      using True Cons.IH[OF Cons.prems] by (simp add: Set_add_def)
  next
    case False
    with Cons.prems have "distinct (acc @ [x])" by simp
    from Cons.IH[OF this] False show ?thesis by (simp add: Set_add_def)
  qed
qed

lemma getProjectId_keeps:
  assumes "getProjectId env m reqOpts = Inr (pid, m')"
  shows "interceptors_request m' = interceptors_request m"
  using assms
  by (auto simp: getProjectId_def Let_def split: option.splits sum.splits if_splits)

lemma interceptors_after:
  "interceptors_request (module_after (makeRequest env m this reqOpts callback)) =
     (case request_headers env this reqOpts of
        None \<Rightarrow> interceptors_request m
      | Some headers \<Rightarrow> interceptors_request (install_interceptors m this reqOpts))"
proof (cases "request_headers env this reqOpts")
  case None
  then show ?thesis by (simp add: makeRequest_headers_throw settled_def)
next
  case (Some headers)
  note h = this
  show ?thesis
  proof (cases "getProjectId env (install_interceptors m this reqOpts) reqOpts")
    case (Inl e)
    with h show ?thesis by (simp add: makeRequest_lookup_fails settled_def)
  next
    case (Inr r)
    obtain pid m2 where r: "r = (pid, m2)" by (cases r)
    obtain m3 this' where c: "cache_projectId m2 this pid = (m3, this')"
      by (cases "cache_projectId m2 this pid")
    obtain u qp' where b: "buildUrl env this' (module_projectId m3) (opt_url reqOpts)
        (opt_queryParameters reqOpts) = (u, qp')"
      by (cases "buildUrl env this' (module_projectId m3) (opt_url reqOpts)
        (opt_queryParameters reqOpts)")
    have "module_after (makeRequest env m this reqOpts callback) = m3"
    proof (cases u)
      case None
      with makeRequest_url_throws[OF h Inr[unfolded r] c b[unfolded None]]
      show ?thesis by (simp add: settled_def)
    next
      case (Some url)
      with makeRequest_dispatches[OF h Inr[unfolded r] c b[unfolded Some] refl refl]
      show ?thesis by (simp add: settled_def)
    qed
    with h cache_projectId_keeps(6)[OF c] getProjectId_keeps[OF Inr[unfolded r]]
    show ?thesis by simp
  qed
qed

text \<open>
  C8. Once the headers are assembled (so in every call that reaches the dispatch), a
  descriptor that carries an interceptor list leaves the engine of the transport with
  exactly the descriptor's interceptors: the previous ones are cleared, each interceptor
  of the list is held once (the engine keeps them in a \<^verbatim>\<open>Set\<close>), in
  the order of the list, and every other engine keeps its interceptors. A descriptor
  without interceptors leaves the interceptors of every engine as they were.
\<close>

theorem interceptors_replaced:
  "(opt_interceptors reqOpts = None \<longrightarrow>
      interceptors_request (module_after (makeRequest env m this reqOpts callback))
        = interceptors_request m)
   \<and> (\<forall>interceptors.
         opt_interceptors reqOpts = Some interceptors
         \<and> request_headers env this reqOpts \<noteq> None \<longrightarrow>
           interceptors_request (module_after (makeRequest env m this reqOpts callback))
               (gaxiosInstance this)
             = rev (remdups (rev interceptors))
           \<and> set (interceptors_request (module_after (makeRequest env m this reqOpts callback))
                   (gaxiosInstance this))
             = set interceptors
           \<and> (distinct interceptors \<longrightarrow>
                 interceptors_request (module_after (makeRequest env m this reqOpts callback))
                   (gaxiosInstance this)
                 = interceptors)
           \<and> (\<forall>g. g \<noteq> gaxiosInstance this \<longrightarrow>
                 interceptors_request (module_after (makeRequest env m this reqOpts callback)) g
                 = interceptors_request m g))"
proof (intro conjI allI impI)
  assume "opt_interceptors reqOpts = None"
  then show "interceptors_request (module_after (makeRequest env m this reqOpts callback))
        = interceptors_request m"
    by (simp add: interceptors_after install_interceptors_def split: option.splits)
next
  fix interceptors
  assume a: "opt_interceptors reqOpts = Some interceptors
         \<and> request_headers env this reqOpts \<noteq> None"
  then have after: "interceptors_request (module_after (makeRequest env m this reqOpts callback))
      = (interceptors_request m)(gaxiosInstance this := foldl Set_add [] interceptors)"
    by (auto simp: interceptors_after install_interceptors_def)
  show "interceptors_request (module_after (makeRequest env m this reqOpts callback))
               (gaxiosInstance this)
             = rev (remdups (rev interceptors))"
    using foldl_Set_add_remdups[of "[]" interceptors] by (simp add: after)
  show "set (interceptors_request (module_after (makeRequest env m this reqOpts callback))
                   (gaxiosInstance this))
             = set interceptors"
    by (simp add: after set_foldl_Set_add)
  show "interceptors_request (module_after (makeRequest env m this reqOpts callback))
                   (gaxiosInstance this)
                 = interceptors" if "distinct interceptors"
    using foldl_Set_add_distinct[of "[]" interceptors] that by (simp add: after)
  show "interceptors_request (module_after (makeRequest env m this reqOpts callback)) g
                 = interceptors_request m g" if "g \<noteq> gaxiosInstance this" for g
    using that by (simp add: after)
qed

theorem interceptors_replaced_witness:
  "opt_interceptors example_reqOpts = Some [7, 8]
   \<and> request_headers example_env example_transport example_reqOpts \<noteq> None
   \<and> interceptors_request example_module 0 = [1, 2]
   \<and> interceptors_request
         (module_after (makeRequest example_env example_module example_transport
                          example_reqOpts None)) 0 = [7, 8]
   \<and> interceptors_request
         (module_after (makeRequest example_env example_module example_transport
                          example_reqOpts None)) 1 = [1, 2]
   \<and> opt_interceptors (example_reqOpts\<lparr>opt_interceptors := None\<rparr>) = None
   \<and> interceptors_request
         (module_after (makeRequest example_env example_module example_transport
                          (example_reqOpts\<lparr>opt_interceptors := None\<rparr>) None)) 0 = [1, 2]"
proof -
  have i: "opt_interceptors example_reqOpts = Some [7, 8]"
    by (simp add: example_reqOpts_def)
  have h: "request_headers example_env example_transport example_reqOpts \<noteq> None"
    by (simp add: example_request_headers)
  have g: "gaxiosInstance example_transport = 0"
    by (simp add: example_transport_def)
  have m: "interceptors_request example_module = (\<lambda>g. [1, 2])"
    by (simp add: example_module_def)
  from interceptors_replaced[of example_reqOpts example_env example_module example_transport None]
    i h
  have "interceptors_request
         (module_after (makeRequest example_env example_module example_transport
                          example_reqOpts None)) 0 = [7, 8]"
    "interceptors_request
         (module_after (makeRequest example_env example_module example_transport
                          example_reqOpts None)) 1 = [1, 2]"
    by (simp_all add: g m)
  moreover
  from interceptors_replaced[of "example_reqOpts\<lparr>opt_interceptors := None\<rparr>" example_env
      example_module example_transport None]
  have "interceptors_request
         (module_after (makeRequest example_env example_module example_transport
                          (example_reqOpts\<lparr>opt_interceptors := None\<rparr>) None)) 0 = [1, 2]"
    by (simp add: m)
  ultimately show ?thesis using i h by (simp add: m)
qed

section \<open>A failing lookup of the project id\<close>

text \<open>
  C7. When the descriptor names no project id and the lookup of the auth client fails
  with \<open>e\<close> (the lookup is made once the headers are assembled), nothing is
  handed to \<^verbatim>\<open>authClient.request\<close>, and \<open>e\<close> itself reaches the
  caller: without a callback the returned promise rejects with \<open>e\<close>; with a callback
  the callback is invoked once, with \<open>e\<close> as its error argument.
\<close>

theorem lookup_failure_surfaces:
  assumes "request_headers env this reqOpts \<noteq> None"
    and "opt_projectId reqOpts = None \<or> opt_projectId reqOpts = Some []"
    and "authClient_getProjectId env = Inl e"
  shows "dispatched (makeRequest env m this reqOpts callback) = None
         \<and> (callback = None \<longrightarrow>
               callback_calls (makeRequest env m this reqOpts callback) = []
               \<and> returned_promise (makeRequest env m this reqOpts callback) = Rejected e)
         \<and> (\<forall>cb. callback = Some cb \<longrightarrow>
               callback_calls (makeRequest env m this reqOpts callback)
                 = [\<lparr>cb_err = Val e, cb_data = Undefined, cb_fullResponse = Undefined\<rparr>]
               \<and> returned_promise (makeRequest env m this reqOpts callback)
                 = (case cb \<lparr>cb_err = Val e, cb_data = Undefined, cb_fullResponse = Undefined\<rparr> of
                      None \<Rightarrow> Resolved Undefined
                    | Some thrown \<Rightarrow> Rejected thrown))"
proof -
  from assms(1) obtain headers where h: "request_headers env this reqOpts = Some headers"
    by auto
  have g: "getProjectId env (install_interceptors m this reqOpts) reqOpts = Inl e"
    using assms(2,3) by (auto simp: getProjectId_def)
  show ?thesis
    by (auto simp: makeRequest_lookup_fails[OF h g] settled_def catch_block_def Let_def
          split: option.splits)
qed

theorem lookup_failure_surfaces_witness:
  "request_headers example_env_no_project example_transport example_reqOpts \<noteq> None
   \<and> opt_projectId example_reqOpts = None
   \<and> authClient_getProjectId example_env_no_project = Inl example_lookup_error
   \<and> dispatched (makeRequest example_env_no_project example_module example_transport
                    example_reqOpts None) = None
   \<and> returned_promise (makeRequest example_env_no_project example_module example_transport
                          example_reqOpts None) = Rejected example_lookup_error
   \<and> callback_calls (makeRequest example_env_no_project example_module example_transport
                        example_reqOpts (Some example_callback))
       = [\<lparr>cb_err = Val example_lookup_error, cb_data = Undefined, cb_fullResponse = Undefined\<rparr>]
   \<and> returned_promise (makeRequest example_env_no_project example_module example_transport
                          example_reqOpts (Some example_callback)) = Resolved Undefined"
proof -
  have h: "request_headers example_env_no_project example_transport example_reqOpts \<noteq> None"
    using example_request_headers
    by (simp add: request_headers_def buildRequestHeaders_def getUserAgentString_def
          tracking_string_def example_env_no_project_def cong: option.case_cong)
  have p: "opt_projectId example_reqOpts = None \<or> opt_projectId example_reqOpts = Some []"
    by (simp add: example_reqOpts_def)
  have l: "authClient_getProjectId example_env_no_project = Inl example_lookup_error"
    by (simp add: example_env_no_project_def)
  from lookup_failure_surfaces[OF h p l, of example_module None]
    lookup_failure_surfaces[OF h p l, of example_module "Some example_callback"]
  show ?thesis using h l by (simp add: example_callback_def example_reqOpts_def)
qed

section \<open>Headers\<close>

lemma lowercase_User_Agent: "lowercase ''User-Agent'' = ''user-agent''"
  by (simp add: lowercase_def ascii_lowercase_def)

lemma lowercase_tracking: "lowercase ''x-goog-api-client'' = ''x-goog-api-client''"
  by (simp add: lowercase_def ascii_lowercase_def)

lemma Headers_set_SomeD:
  assumes "Headers_set h name v = Some h'"
  shows "h' = h(lowercase name \<mapsto> normalize_value v)"
    and "is_header_value (normalize_value v)"
  using assms by (auto simp: Headers_set_def Let_def split: if_splits)

lemma strip_trailing_decompose:
  "v = strip_trailing v @ rev (takeWhile is_http_whitespace (rev v))"
proof -
  have "rev (rev v)
        = rev (takeWhile is_http_whitespace (rev v) @ dropWhile is_http_whitespace (rev v))"
    by (simp only: takeWhile_dropWhile_id)
  then have "v = rev (dropWhile is_http_whitespace (rev v))
                 @ rev (takeWhile is_http_whitespace (rev v))"
    by (simp only: rev_rev_ident rev_append)
  then show ?thesis by (simp only: strip_trailing_def)
qed

lemma strip_trailing_append:
  assumes "a \<noteq> []" and "\<not> is_http_whitespace (last a)"
  shows "strip_trailing (a @ b) = a @ strip_trailing b"
proof (cases "\<forall>c\<in>set b. is_http_whitespace c")
  case True
  then have "dropWhile is_http_whitespace (rev b) = []" by simp
  moreover have "dropWhile is_http_whitespace (rev a) = rev a"
    using assms by (cases a rule: rev_cases) simp_all
  ultimately show ?thesis
    using True by (simp add: strip_trailing_def dropWhile_append)
next
  case False
  then show ?thesis
    by (auto simp: strip_trailing_def dropWhile_append)
qed

lemma normalize_value_nonblank:
  assumes "\<exists>c\<in>set v. \<not> is_http_whitespace c"
  shows "normalize_value v \<noteq> []"
    and "\<not> is_http_whitespace (hd (normalize_value v))"
    and "\<not> is_http_whitespace (last (normalize_value v))"
proof -
  define w where "w = dropWhile is_http_whitespace v"
  from assms have w: "w \<noteq> []" by (auto simp: w_def dropWhile_eq_Nil_conv)
  then have hw: "\<not> is_http_whitespace (hd w)" by (simp add: w_def hd_dropWhile)
  have "set w \<subseteq> set v" by (simp add: w_def set_dropWhileD subsetI)
  from assms obtain c where c: "c \<in> set v" "\<not> is_http_whitespace c" by auto
  have cw: "c \<in> set w"
  proof -
    have "v = takeWhile is_http_whitespace v @ w" by (simp add: w_def)
    then have "set v = set (takeWhile is_http_whitespace v) \<union> set w"
      by (metis set_append)
    with c show ?thesis by (auto dest: set_takeWhileD)
  qed
  define s where "s = dropWhile is_http_whitespace (rev w)"
  have s: "s \<noteq> []" using cw c(2) by (auto simp: s_def dropWhile_eq_Nil_conv)
  then have hs: "\<not> is_http_whitespace (hd s)" by (simp add: s_def hd_dropWhile)
  have n: "normalize_value v = rev s" by (simp add: normalize_value_def strip_trailing_def w_def s_def)
  show "normalize_value v \<noteq> []" using s n by simp
  show "\<not> is_http_whitespace (last (normalize_value v))"
    using hs s n by (simp add: last_rev)
  have "w = rev s @ rev (takeWhile is_http_whitespace (rev w))"
    using strip_trailing_decompose[of w] by (simp add: strip_trailing_def s_def)
  then have "hd w = hd (rev s)" using s by (metis hd_append2 rev_is_Nil_conv)
  with hw n show "\<not> is_http_whitespace (hd (normalize_value v))" by simp
qed

lemma normalize_value_append:
  assumes "a \<noteq> []" and "\<not> is_http_whitespace (hd a)" and "\<not> is_http_whitespace (last a)"
  shows "normalize_value (a @ b) = a @ strip_trailing b"
proof -
  have "dropWhile is_http_whitespace (a @ b) = a @ b"
    using assms(1,2) by (cases a) simp_all
  then show ?thesis
    by (simp add: normalize_value_def strip_trailing_append[OF assms(1,3)])
qed

lemma strip_trailing_id:
  assumes "v \<noteq> []" and "\<not> is_http_whitespace (last v)"
  shows "strip_trailing v = v"
  using strip_trailing_append[OF assms, of "[]"] by (simp add: strip_trailing_def)

lemma tracking_string_nonblank: "\<exists>c\<in>set (tracking_string env). \<not> is_http_whitespace c"
  by (rule bexI[of _ "CHR ''g''"]) (simp_all add: tracking_string_def is_http_whitespace_def)

lemma getUserAgentString_nonblank:
  assumes "\<exists>c\<in>set (util_getUserAgentString env). \<not> is_http_whitespace c"
  shows "\<exists>c\<in>set (getUserAgentString env this). \<not> is_http_whitespace c"
  using assms by (auto simp: getUserAgentString_def Let_def split: option.splits)

lemma buildRequestHeaders_SomeD:
  assumes "buildRequestHeaders env this init = Some headers"
  obtains caller where
    "Headers_new (case init of None \<Rightarrow> [] | Some i \<Rightarrow> i) = Some caller"
    "headers = caller(''user-agent'' \<mapsto> normalize_value (getUserAgentString env this),
                      ''x-goog-api-client'' \<mapsto> normalize_value (tracking_string env))"
proof -
  from assms obtain caller h1 where
    c: "Headers_new (case init of None \<Rightarrow> [] | Some i \<Rightarrow> i) = Some caller"
    and u: "Headers_set caller ''User-Agent'' (getUserAgentString env this) = Some h1"
    and t: "Headers_set h1 ''x-goog-api-client'' (tracking_string env) = Some headers"
    by (auto simp: buildRequestHeaders_def split: option.splits)
  from Headers_set_SomeD(1)[OF u] Headers_set_SomeD(1)[OF t]
  have "headers = caller(''user-agent'' \<mapsto> normalize_value (getUserAgentString env this),
                      ''x-goog-api-client'' \<mapsto> normalize_value (tracking_string env))"
    by (simp add: lowercase_User_Agent lowercase_tracking)
  with c that show ?thesis by blast
qed

text \<open>
  The tracking header of the request: what \<^verbatim>\<open>#buildRequestHeaders\<close>
  wrote, followed by the command tag when there is a truthy one.
\<close>

lemma request_headers_SomeD:
  assumes "request_headers env this reqOpts = Some headers"
  obtains caller where
    "Headers_new (case opt_headers reqOpts of None \<Rightarrow> [] | Some i \<Rightarrow> i) = Some caller"
    "buildRequestHeaders env this (opt_headers reqOpts)
       = Some (caller(''user-agent'' \<mapsto> normalize_value (getUserAgentString env this),
                      ''x-goog-api-client'' \<mapsto> normalize_value (tracking_string env)))"
    "headers = caller(''user-agent'' \<mapsto> normalize_value (getUserAgentString env this),
                      ''x-goog-api-client'' \<mapsto>
                        (case opt_gccl_gcs_cmd reqOpts of
                           None \<Rightarrow> normalize_value (tracking_string env)
                         | Some cmd \<Rightarrow>
                             if cmd \<noteq> []
                             then normalize_value (tracking_string env) @ '' gccl-gcs-cmd/''
                                  @ strip_trailing cmd
                             else normalize_value (tracking_string env)))"
proof -
  from assms obtain built where
    b: "buildRequestHeaders env this (opt_headers reqOpts) = Some built"
    by (auto simp: request_headers_def split: option.splits)
  then obtain caller where
    c: "Headers_new (case opt_headers reqOpts of None \<Rightarrow> [] | Some i \<Rightarrow> i) = Some caller"
    and bu: "built = caller(''user-agent'' \<mapsto> normalize_value (getUserAgentString env this),
                      ''x-goog-api-client'' \<mapsto> normalize_value (tracking_string env))"
    by (rule buildRequestHeaders_SomeD)
  define T where "T = normalize_value (tracking_string env)"
  have g: "Headers_get built ''x-goog-api-client'' = Some T"
    by (simp add: Headers_get_def lowercase_tracking bu T_def)
  note nb = normalize_value_nonblank[OF tracking_string_nonblank, of env]
  have T1: "T @ '' gccl-gcs-cmd/'' \<noteq> []" "\<not> is_http_whitespace (hd (T @ '' gccl-gcs-cmd/''))"
    "\<not> is_http_whitespace (last (T @ '' gccl-gcs-cmd/''))"
    using nb by (simp_all add: T_def is_http_whitespace_def)
  have app: "normalize_value (T @ '' gccl-gcs-cmd/'' @ cmd)
             = T @ '' gccl-gcs-cmd/'' @ strip_trailing cmd" for cmd
    using normalize_value_append[OF T1, of cmd] by simp
  have main: "headers = caller(''user-agent'' \<mapsto> normalize_value (getUserAgentString env this),
                      ''x-goog-api-client'' \<mapsto>
                        (case opt_gccl_gcs_cmd reqOpts of
                           None \<Rightarrow> T
                         | Some cmd \<Rightarrow>
                             if cmd \<noteq> [] then T @ '' gccl-gcs-cmd/'' @ strip_trailing cmd
                             else T))"
  proof (cases "opt_gccl_gcs_cmd reqOpts")
    case None
    with assms b bu show ?thesis by (simp add: request_headers_def T_def)
  next
    case (Some cmd)
    show ?thesis
    proof (cases "cmd = []")
      case True
      with assms b bu Some show ?thesis by (simp add: request_headers_def T_def)
    next
      case False
      with assms b Some g
      have "Headers_set built ''x-goog-api-client'' (T @ '' gccl-gcs-cmd/'' @ cmd) = Some headers"
        by (simp add: request_headers_def)
      from Headers_set_SomeD(1)[OF this] False Some app[of cmd] show ?thesis
        by (simp add: lowercase_tracking bu)
    qed
  qed
  from main[unfolded T_def] c b[unfolded bu] that show ?thesis by blast
qed

lemma Headers_fill_present:
  assumes "Headers_fill h init = Some h'"
  shows "dom h \<subseteq> dom h' \<and> (\<forall>(name, v)\<in>set init. h' (lowercase name) \<noteq> None)"
  using assms
proof (induction h init rule: Headers_fill.induct)
  case (1 h)
  then show ?case by simp
next
  case (2 h name v rest)
  from "2.prems" obtain h1 where
    a: "Headers_append h name v = Some h1" and f: "Headers_fill h1 rest = Some h'"
    by (auto split: option.splits)
  from a have h1: "dom h \<subseteq> dom h1" "h1 (lowercase name) \<noteq> None"
    by (auto simp: Headers_append_def Let_def split: if_splits)
  from "2.IH"[OF a f] h1 show ?case by auto
qed

text \<open>
  C9. In a dispatched call the tracking header is the string
  \<^verbatim>\<open>#buildRequestHeaders\<close> computed (as the Headers object holds it);
  when the descriptor carries a truthy command tag,
  \<^verbatim>\<open> gccl-gcs-cmd/<tag>\<close> is appended to that string
  (\<^verbatim>\<open>Headers.set\<close> strips HTTP whitespace at the end of a value, so a
  tag that ends in whitespace loses it); without a tag, or with an empty one, the
  header is left as computed.
\<close>

theorem command_tag_appended:
  assumes "dispatched (makeRequest env m this reqOpts callback) = Some config"
  shows "\<exists>headers built.
           config K_headers = Some (V_Headers headers)
           \<and> buildRequestHeaders env this (opt_headers reqOpts) = Some built
           \<and> Headers_get built ''x-goog-api-client'' = Some (normalize_value (tracking_string env))
           \<and> normalize_value (tracking_string env) \<noteq> []
           \<and> Headers_get headers ''x-goog-api-client''
               = Some (case opt_gccl_gcs_cmd reqOpts of
                         None \<Rightarrow> normalize_value (tracking_string env)
                       | Some cmd \<Rightarrow>
                           if cmd \<noteq> []
                           then normalize_value (tracking_string env) @ '' gccl-gcs-cmd/''
                                @ strip_trailing cmd
                           else normalize_value (tracking_string env))
           \<and> (\<forall>cmd. opt_gccl_gcs_cmd reqOpts = Some cmd \<and> cmd \<noteq> []
                      \<and> \<not> is_http_whitespace (last cmd) \<longrightarrow>
                 Headers_get headers ''x-goog-api-client''
                   = Some (normalize_value (tracking_string env) @ '' gccl-gcs-cmd/'' @ cmd))"
proof -
  from assms obtain headers url where
    h: "request_headers env this reqOpts = Some headers"
    and k: "config = request_config (this_after (makeRequest env m this reqOpts callback))
                (reqOpts_after (makeRequest env m this reqOpts callback)) headers url"
    by (rule makeRequest_after)
  from h obtain caller where
    b: "buildRequestHeaders env this (opt_headers reqOpts)
       = Some (caller(''user-agent'' \<mapsto> normalize_value (getUserAgentString env this),
                      ''x-goog-api-client'' \<mapsto> normalize_value (tracking_string env)))"
    and hs: "headers = caller(''user-agent'' \<mapsto> normalize_value (getUserAgentString env this),
                      ''x-goog-api-client'' \<mapsto>
                        (case opt_gccl_gcs_cmd reqOpts of
                           None \<Rightarrow> normalize_value (tracking_string env)
                         | Some cmd \<Rightarrow>
                             if cmd \<noteq> []
                             then normalize_value (tracking_string env) @ '' gccl-gcs-cmd/''
                                  @ strip_trailing cmd
                             else normalize_value (tracking_string env)))"
    by (rule request_headers_SomeD)
  have 1: "config K_headers = Some (V_Headers headers)"
    by (simp add: k request_config_def)
  have 2: "Headers_get headers ''x-goog-api-client''
               = Some (case opt_gccl_gcs_cmd reqOpts of
                         None \<Rightarrow> normalize_value (tracking_string env)
                       | Some cmd \<Rightarrow>
                           if cmd \<noteq> []
                           then normalize_value (tracking_string env) @ '' gccl-gcs-cmd/''
                                @ strip_trailing cmd
                           else normalize_value (tracking_string env))"
    by (simp add: hs Headers_get_def lowercase_tracking)
  have 3: "Headers_get headers ''x-goog-api-client''
                   = Some (normalize_value (tracking_string env) @ '' gccl-gcs-cmd/'' @ cmd)"
    if "opt_gccl_gcs_cmd reqOpts = Some cmd \<and> cmd \<noteq> [] \<and> \<not> is_http_whitespace (last cmd)"
    for cmd
    using that strip_trailing_id[of cmd] by (simp add: 2)
  show ?thesis
    using 1 2 3 b normalize_value_nonblank(1)[OF tracking_string_nonblank, of env]
    by (simp add: Headers_get_def lowercase_tracking)
qed

theorem command_tag_appended_witness:
  "dispatched (makeRequest example_env example_module example_transport example_reqOpts None)
     = Some example_config
   \<and> example_config K_headers = Some (V_Headers example_headers)
   \<and> opt_gccl_gcs_cmd example_reqOpts = Some ''storage.buckets.list''
   \<and> normalize_value (tracking_string example_env)
       = ''gl-node/18.20.0 gccl/7.16.0-cjs gccl-invocation-id/0b1c2d3e-4f50-4a61-8b72-9c8d7e6f5a4b''
   \<and> Headers_get example_headers ''x-goog-api-client''
       = Some (normalize_value (tracking_string example_env)
               @ '' gccl-gcs-cmd/storage.buckets.list'')"
proof -
  note d = example_dispatched[of None]
  have k: "example_config K_headers = Some (V_Headers example_headers)"
    by (simp add: example_config_def request_config_def)
  have c: "opt_gccl_gcs_cmd example_reqOpts = Some ''storage.buckets.list''"
    by (simp add: example_reqOpts_def)
  have l: "\<not> is_http_whitespace (last ''storage.buckets.list'')"
    by (simp add: is_http_whitespace_def)
  have t: "normalize_value (tracking_string example_env)
       = ''gl-node/18.20.0 gccl/7.16.0-cjs gccl-invocation-id/0b1c2d3e-4f50-4a61-8b72-9c8d7e6f5a4b''"
    by (simp add: normalize_value_def strip_trailing_def tracking_string_def example_env_def
          is_http_whitespace_def)
  from command_tag_appended[OF d] k c l
  have "Headers_get example_headers ''x-goog-api-client''
       = Some (normalize_value (tracking_string example_env)
               @ '' gccl-gcs-cmd/storage.buckets.list'')"
    by auto
  with d k c t show ?thesis by simp
qed

text \<open>
  C3. In a dispatched call the Headers object handed to the engine holds a non-empty
  \<^verbatim>\<open>User-Agent\<close>, which is the provided user agent (when one is
  configured) followed by a space and the default string of
  \<^verbatim>\<open>getUserAgentString()\<close>, and a non-empty
  \<^verbatim>\<open>x-goog-api-client\<close>, whatever headers the descriptor supplies;
  under every other name it answers as the caller's own headers do, and every header
  the caller supplied is present. The default string is computed by a helper that is
  not among the sources: it is taken to hold a character other than whitespace.
\<close>

theorem system_headers_present:
  assumes "dispatched (makeRequest env m this reqOpts callback) = Some config"
    and "\<exists>c\<in>set (util_getUserAgentString env). \<not> is_http_whitespace c"
  shows "\<exists>headers caller.
           config K_headers = Some (V_Headers headers)
           \<and> Headers_new (case opt_headers reqOpts of None \<Rightarrow> [] | Some init \<Rightarrow> init)
               = Some caller
           \<and> Headers_get headers ''User-Agent''
               = Some (normalize_value
                         (case providedUserAgent this of
                            None \<Rightarrow> util_getUserAgentString env
                          | Some provided \<Rightarrow>
                              if provided \<noteq> []
                              then provided @ '' '' @ util_getUserAgentString env
                              else util_getUserAgentString env))
           \<and> Headers_get headers ''User-Agent'' \<noteq> Some []
           \<and> Headers_get headers ''x-goog-api-client'' \<noteq> None
           \<and> Headers_get headers ''x-goog-api-client'' \<noteq> Some []
           \<and> (\<forall>name. lowercase name \<noteq> ''user-agent''
                       \<and> lowercase name \<noteq> ''x-goog-api-client'' \<longrightarrow>
                 Headers_get headers name = Headers_get caller name)
           \<and> (\<forall>(name, v)\<in>set (case opt_headers reqOpts of None \<Rightarrow> [] | Some init \<Rightarrow> init).
                 Headers_get caller name \<noteq> None)"
proof -
  from assms(1) obtain headers url where
    h: "request_headers env this reqOpts = Some headers"
    and k: "config = request_config (this_after (makeRequest env m this reqOpts callback))
                (reqOpts_after (makeRequest env m this reqOpts callback)) headers url"
    by (rule makeRequest_after)
  from h obtain caller where
    c: "Headers_new (case opt_headers reqOpts of None \<Rightarrow> [] | Some i \<Rightarrow> i) = Some caller"
    and hs: "headers = caller(''user-agent'' \<mapsto> normalize_value (getUserAgentString env this),
                      ''x-goog-api-client'' \<mapsto>
                        (case opt_gccl_gcs_cmd reqOpts of
                           None \<Rightarrow> normalize_value (tracking_string env)
                         | Some cmd \<Rightarrow>
                             if cmd \<noteq> []
                             then normalize_value (tracking_string env) @ '' gccl-gcs-cmd/''
                                  @ strip_trailing cmd
                             else normalize_value (tracking_string env)))"
    by (rule request_headers_SomeD)
  have 1: "config K_headers = Some (V_Headers headers)"
    by (simp add: k request_config_def)
  have ua: "Headers_get headers ''User-Agent'' = Some (normalize_value (getUserAgentString env this))"
    by (simp add: hs Headers_get_def lowercase_User_Agent lowercase_tracking)
  have 2: "Headers_get headers ''User-Agent''
               = Some (normalize_value
                         (case providedUserAgent this of
                            None \<Rightarrow> util_getUserAgentString env
                          | Some provided \<Rightarrow>
                              if provided \<noteq> []
                              then provided @ '' '' @ util_getUserAgentString env
                              else util_getUserAgentString env))"
    by (simp add: ua getUserAgentString_def Let_def)
  have 3: "Headers_get headers ''User-Agent'' \<noteq> Some []"
    using normalize_value_nonblank(1)[OF getUserAgentString_nonblank[OF assms(2)], of this]
    by (simp add: ua)
  have T: "normalize_value (tracking_string env) \<noteq> []"
    by (rule normalize_value_nonblank(1)[OF tracking_string_nonblank])
  have 4: "Headers_get headers ''x-goog-api-client'' \<noteq> None"
    "Headers_get headers ''x-goog-api-client'' \<noteq> Some []"
    using T by (auto simp: hs Headers_get_def lowercase_tracking split: option.splits)
  have 5: "Headers_get headers name = Headers_get caller name"
    if "lowercase name \<noteq> ''user-agent'' \<and> lowercase name \<noteq> ''x-goog-api-client''" for name
    using that by (simp add: hs Headers_get_def)
  have 6: "\<forall>(name, v)\<in>set (case opt_headers reqOpts of None \<Rightarrow> [] | Some init \<Rightarrow> init).
                 Headers_get caller name \<noteq> None"
    using Headers_fill_present[OF c[unfolded Headers_new_def]]
    by (simp add: Headers_get_def)
  show ?thesis using 1 c 2 3 4 5 6 by blast
qed

theorem system_headers_present_witness:
  "dispatched (makeRequest example_env example_module example_transport example_reqOpts None)
     = Some example_config
   \<and> CHR ''g'' \<in> set (util_getUserAgentString example_env)
   \<and> \<not> is_http_whitespace (CHR ''g'')
   \<and> example_config K_headers = Some (V_Headers example_headers)
   \<and> opt_headers example_reqOpts = Some [(''X-Custom'', ''1'')]
   \<and> Headers_get example_headers ''User-Agent'' = Some ''my-app/1.0 gcloud-node-storage/7.16.0''
   \<and> Headers_get example_headers ''x-goog-api-client'' \<noteq> Some []
   \<and> Headers_get example_headers ''X-Custom'' = Some ''1''"
proof -
  note d = example_dispatched[of None]
  have g: "CHR ''g'' \<in> set (util_getUserAgentString example_env)"
    "\<not> is_http_whitespace (CHR ''g'')"
    by (simp_all add: example_env_def is_http_whitespace_def)
  then have nb: "\<exists>c\<in>set (util_getUserAgentString example_env). \<not> is_http_whitespace c"
    by blast
  have k: "example_config K_headers = Some (V_Headers example_headers)"
    by (simp add: example_config_def request_config_def)
  have o: "opt_headers example_reqOpts = Some [(''X-Custom'', ''1'')]"
    by (simp add: example_reqOpts_def)
  have p: "normalize_value
             (case providedUserAgent example_transport of
                None \<Rightarrow> util_getUserAgentString example_env
              | Some provided \<Rightarrow>
                  if provided \<noteq> []
                  then provided @ '' '' @ util_getUserAgentString example_env
                  else util_getUserAgentString example_env)
           = ''my-app/1.0 gcloud-node-storage/7.16.0''"
    by (simp add: example_transport_def example_env_def normalize_value_def strip_trailing_def
          is_http_whitespace_def)
  have x: "Headers_get example_headers ''X-Custom'' = Some ''1''"
    by (simp add: Headers_get_def example_headers_def lowercase_def ascii_lowercase_def)
  from system_headers_present[OF d nb] k
  have "Headers_get example_headers ''User-Agent'' = Some ''my-app/1.0 gcloud-node-storage/7.16.0''"
    "Headers_get example_headers ''x-goog-api-client'' \<noteq> Some []"
    by (auto simp: p)
  with d g k o x show ?thesis by simp
qed

section \<open>URL encoding of the query\<close>

lemma hex_digit_in: "n < 16 \<Longrightarrow> hex_digit n \<in> set ''0123456789ABCDEF''"
  unfolding hex_digit_def by (rule nth_mem) simp

lemma hex_value_hex_digit_all:
  "list_all (\<lambda>n. hex_value (hex_digit n) = Some n) [0..<16]"
  by code_simp

lemma hex_value_hex_digit: "n < 16 \<Longrightarrow> hex_value (hex_digit n) = Some n"
  using hex_value_hex_digit_all by (simp add: list_all_iff)

lemma urldecode_urlencode: "urldecode (urlencode s) = s"
proof (induction s)
  case Nil
  show ?case by (simp add: urldecode_def urlencode_def)
next
  case (Cons c s)
  have hi: "(of_char c :: nat) div 16 < 16"
    using nat_of_char_less_256[of c] by linarith
  have lo: "(of_char c :: nat) mod 16 < 16" by simp
  have nd: "hex_digit n \<noteq> CHR ''+''" if "n < 16" for n
    using hex_digit_in[OF that] by auto
  have rebuilt: "char_of (16 * (of_char c div 16) + of_char c mod 16 :: nat) = c"
    by simp
  show ?case
  proof (cases "urlencoded_keep c")
    case True
    then have "c \<noteq> CHR ''%''" "c \<noteq> CHR ''+''" by (auto simp: urlencoded_keep_def)
    with True Cons show ?thesis
      by (simp add: urldecode_def urlencode_def urlencode_byte_def percent_encode_byte_def)
  next
    case False
    show ?thesis
    proof (cases "c = CHR 0x20")
      case True
      with False Cons show ?thesis
        by (simp add: urldecode_def urlencode_def urlencode_byte_def percent_encode_byte_def)
    next
      case False
      with \<open>\<not> urlencoded_keep c\<close> Cons show ?thesis
        using hex_value_hex_digit[OF hi] hex_value_hex_digit[OF lo] nd[OF hi] nd[OF lo] rebuilt
        by (simp add: urldecode_def urlencode_def urlencode_byte_def percent_encode_byte_def)
    qed
  qed
qed

text \<open>The serializer writes none of the characters that delimit a query or its pairs.\<close>

lemma urlencode_byte_alphabet:
  assumes "x \<in> set (urlencode_byte c)"
  shows "x \<in> set ''abcdefghijklmnopqrstuvwxyzABCDEFGHIJKLMNOPQRSTUVWXYZ0123456789*-._+%''"
proof -
  have hi: "(of_char c :: nat) div 16 < 16"
    using nat_of_char_less_256[of c] by linarith
  have lo: "(of_char c :: nat) mod 16 < 16" by simp
  have hex: "set ''0123456789ABCDEF''
             \<subseteq> set ''abcdefghijklmnopqrstuvwxyzABCDEFGHIJKLMNOPQRSTUVWXYZ0123456789*-._+%''"
    by simp
  consider "urlencoded_keep c" "x = c" | "x = CHR ''+''" | "x = CHR ''%''"
    | "x = hex_digit (of_char c div 16)" | "x = hex_digit (of_char c mod 16)"
    using assms by (auto simp: urlencode_byte_def percent_encode_byte_def split: if_splits)
  then show ?thesis
  proof cases
    case 1
    have "set ''abcdefghijklmnopqrstuvwxyzABCDEFGHIJKLMNOPQRSTUVWXYZ0123456789*-._''
          \<subseteq> set ''abcdefghijklmnopqrstuvwxyzABCDEFGHIJKLMNOPQRSTUVWXYZ0123456789*-._+%''"
      by simp
    with 1(1)[unfolded urlencoded_keep_def] 1(2) show ?thesis by blast
  next
    case 2
    then show ?thesis by simp
  next
    case 3
    then show ?thesis by simp
  next
    case 4
    with hex_digit_in[OF hi] hex show ?thesis by blast
  next
    case 5
    with hex_digit_in[OF lo] hex show ?thesis by blast
  qed
qed

lemma urlencode_alphabet:
  assumes "x \<in> set (urlencode s)"
  shows "x \<in> set ''abcdefghijklmnopqrstuvwxyzABCDEFGHIJKLMNOPQRSTUVWXYZ0123456789*-._+%''"
proof -
  from assms obtain c where "x \<in> set (urlencode_byte c)"
    by (auto simp: urlencode_def)
  then show ?thesis by (rule urlencode_byte_alphabet)
qed

lemma urlencode_chars:
  assumes "x \<in> set (urlencode s)"
  shows "x \<noteq> CHR ''&'' \<and> x \<noteq> CHR ''='' \<and> x \<noteq> CHR ''?''"
proof -
  have "CHR ''&'' \<notin> set ''abcdefghijklmnopqrstuvwxyzABCDEFGHIJKLMNOPQRSTUVWXYZ0123456789*-._+%''"
    "CHR ''='' \<notin> set ''abcdefghijklmnopqrstuvwxyzABCDEFGHIJKLMNOPQRSTUVWXYZ0123456789*-._+%''"
    "CHR ''?'' \<notin> set ''abcdefghijklmnopqrstuvwxyzABCDEFGHIJKLMNOPQRSTUVWXYZ0123456789*-._+%''"
    by simp_all
  with urlencode_alphabet[OF assms] show ?thesis by blast
qed

lemma split_on_absent: "c \<notin> set p \<Longrightarrow> split_on c p = [p]"
  by (induction p) auto

lemma split_on_append: "c \<notin> set p \<Longrightarrow> split_on c (p @ c # rest) = p # split_on c rest"
  by (induction p) auto

lemma split_on_join_amp:
  assumes "\<forall>p\<in>set ps. CHR ''&'' \<notin> set p" and "ps \<noteq> []"
  shows "split_on CHR ''&'' (join_amp ps) = ps"
  using assms
proof (induction ps rule: join_amp.induct)
  case 1
  then show ?case by simp
next
  case (2 p)
  then show ?case by (simp add: split_on_absent)
next
  case (3 p q ps)
  then have "split_on CHR ''&'' (join_amp (q # ps)) = q # ps" by simp
  with 3 show ?case by (simp add: split_on_append)
qed

lemma parse_pair_urlencode:
  "parse_pair (urlencode name @ ''='' @ urlencode v) = (name, v)"
proof -
  have n: "\<forall>x\<in>set (urlencode name). x \<noteq> CHR ''=''"
    using urlencode_chars by blast
  have "takeWhile (\<lambda>c. c \<noteq> CHR ''='') (urlencode name @ ''='' @ urlencode v) = urlencode name"
    using n by (simp add: takeWhile_append2)
  moreover have "dropWhile (\<lambda>c. c \<noteq> CHR ''='') (urlencode name @ ''='' @ urlencode v)
                 = ''='' @ urlencode v"
    using n by (simp add: dropWhile_append2)
  ultimately show ?thesis
    by (simp add: parse_pair_def urldecode_urlencode)
qed

text \<open>
  Parsing what the serializer wrote gives back the entries, in their order: the
  serialization is one \<^verbatim>\<open>name=value\<close> per entry, in the order of the
  entries.
\<close>

lemma urlencoded_parse_toString:
  "urlencoded_parse (URLSearchParams_toString entries) = entries"
proof (cases "entries = []")
  case True
  then show ?thesis by (simp add: urlencoded_parse_def URLSearchParams_toString_def)
next
  case False
  define ps where "ps = map (\<lambda>(name, v). urlencode name @ ''='' @ urlencode v) entries"
  have amp: "\<forall>p\<in>set ps. CHR ''&'' \<notin> set p"
    using urlencode_chars by (fastforce simp: ps_def)
  have ne: "\<forall>p\<in>set ps. p \<noteq> []" by (auto simp: ps_def)
  have "ps \<noteq> []" using False by (simp add: ps_def)
  from split_on_join_amp[OF amp this]
  have "urlencoded_parse (join_amp ps) = map parse_pair ps"
    using ne by (simp add: urlencoded_parse_def filter_id_conv)
  also have "\<dots> = entries"
  proof -
    have "parse_pair (case e of (name, v) \<Rightarrow> urlencode name @ ''='' @ urlencode v) = e" for e
      by (cases e) (simp only: prod.case parse_pair_urlencode)
    then show ?thesis by (simp add: ps_def comp_def map_idI)
  qed
  finally show ?thesis by (simp add: URLSearchParams_toString_def ps_def)
qed

lemma toString_not_question:
  "URLSearchParams_toString entries = c # cs \<Longrightarrow> c \<noteq> CHR ''?''"
proof (cases entries)
  case Nil
  assume "URLSearchParams_toString entries = c # cs"
  with Nil show ?thesis by (simp add: URLSearchParams_toString_def)
next
  case (Cons e es)
  assume a: "URLSearchParams_toString entries = c # cs"
  obtain name v where e: "e = (name, v)" by (cases e)
  have "c \<in> set (urlencode name @ ''='')"
    using a Cons e by (cases es; cases "urlencode name") (auto simp: URLSearchParams_toString_def)
  then show ?thesis using urlencode_chars[of c name] by auto
qed

text \<open>
  The serialization consists of characters the \<^verbatim>\<open>search\<close> setter
  neither removes nor percent-encodes, so the setter stores it as it is.
\<close>

lemma join_amp_alphabet:
  assumes "x \<in> set (join_amp ps)"
  shows "x = CHR ''&'' \<or> (\<exists>p\<in>set ps. x \<in> set p)"
  using assms by (induction ps rule: join_amp.induct) auto

lemma toString_alphabet:
  assumes "x \<in> set (URLSearchParams_toString entries)"
  shows "x \<in> set ''abcdefghijklmnopqrstuvwxyzABCDEFGHIJKLMNOPQRSTUVWXYZ0123456789*-._+%&=''"
proof -
  have sub: "set ''abcdefghijklmnopqrstuvwxyzABCDEFGHIJKLMNOPQRSTUVWXYZ0123456789*-._+%''
      \<subseteq> set ''abcdefghijklmnopqrstuvwxyzABCDEFGHIJKLMNOPQRSTUVWXYZ0123456789*-._+%&=''"
    by simp
  have amp: "CHR ''&'' \<in> set ''abcdefghijklmnopqrstuvwxyzABCDEFGHIJKLMNOPQRSTUVWXYZ0123456789*-._+%&=''"
    and eq: "CHR ''='' \<in> set ''abcdefghijklmnopqrstuvwxyzABCDEFGHIJKLMNOPQRSTUVWXYZ0123456789*-._+%&=''"
    by simp_all
  from join_amp_alphabet[OF assms[unfolded URLSearchParams_toString_def]]
  consider "x = CHR ''&''" | "x = CHR ''=''"
    | name where "x \<in> set (urlencode name)"
    by auto
  then show ?thesis
  proof cases
    case 1
    with amp show ?thesis by blast
  next
    case 2
    with eq show ?thesis by blast
  next
    case 3
    from urlencode_alphabet[OF 3] sub show ?thesis by blast
  qed
qed

lemma alphabet_stored_all:
  "list_all (\<lambda>x. \<not> is_tab_or_newline x \<and> \<not> in_query_percent_encode_set True x
                  \<and> \<not> in_query_percent_encode_set False x)
     ''abcdefghijklmnopqrstuvwxyzABCDEFGHIJKLMNOPQRSTUVWXYZ0123456789*-._+%&=''"
  by (simp add: is_tab_or_newline_def in_query_percent_encode_set_def)

lemma alphabet_stored:
  assumes "x \<in> set ''abcdefghijklmnopqrstuvwxyzABCDEFGHIJKLMNOPQRSTUVWXYZ0123456789*-._+%&=''"
  shows "\<not> is_tab_or_newline x" and "\<not> in_query_percent_encode_set special x"
proof -
  from assms alphabet_stored_all[unfolded list_all_iff]
  have all: "\<not> is_tab_or_newline x \<and> \<not> in_query_percent_encode_set True x
             \<and> \<not> in_query_percent_encode_set False x"
    by blast
  from all show "\<not> is_tab_or_newline x" by blast
  from all show "\<not> in_query_percent_encode_set special x" by (cases special) simp_all
qed

lemma query_percent_encode_id:
  assumes "\<forall>x\<in>set s. \<not> in_query_percent_encode_set special x"
  shows "query_percent_encode special s = s"
  using assms by (induction s) (simp_all add: query_percent_encode_def)

lemma URL_set_search_nonempty:
  assumes "URLSearchParams_toString entries = c # cs"
  shows "URL_set_search u (URLSearchParams_toString entries)
         = u\<lparr>url_query := Some (URLSearchParams_toString entries)\<rparr>"
proof -
  let ?ser = "URLSearchParams_toString entries"
  have q: "c \<noteq> CHR ''?''" by (rule toString_not_question[OF assms])
  have f: "filter (\<lambda>x. \<not> is_tab_or_newline x) ?ser = ?ser"
    using toString_alphabet[of _ entries] alphabet_stored(1) by (simp add: filter_id_conv)
  have e: "query_percent_encode (url_special u) ?ser = ?ser"
    using toString_alphabet[of _ entries] alphabet_stored(2)
    by (intro query_percent_encode_id) blast
  have "URL_set_search u (c # cs)
        = u\<lparr>url_query := Some (query_percent_encode (url_special u)
                                  (filter (\<lambda>x. \<not> is_tab_or_newline x) (c # cs)))\<rparr>"
    using q by (simp add: URL_set_search_def)
  then show ?thesis using f e by (simp add: assms[symmetric])
qed

text \<open>
  The query after \<^verbatim>\<open>url.search = qp.toString()\<close>, read back through
  \<^verbatim>\<open>url.searchParams\<close>.
\<close>

lemma searchParams_get_set_search:
  "searchParams_get (URL_set_search u (URLSearchParams_toString entries)) name
     = map_of entries name"
proof (cases "URLSearchParams_toString entries")
  case Nil
  then have "urlencoded_parse [] = entries"
    using urlencoded_parse_toString[of entries] by simp
  then have "entries = []" by (simp add: urlencoded_parse_def)
  with Nil show ?thesis
    by (simp add: searchParams_get_def URL_set_search_def urlencoded_parse_def)
next
  case (Cons c cs)
  show ?thesis
    using urlencoded_parse_toString[of entries]
    by (simp add: searchParams_get_def URL_set_search_nonempty[OF Cons])
qed

section \<open>The URL of the dispatch\<close>

lemma strict_equal_iff: "strict_equal v pid \<longleftrightarrow> v = of_projectId pid"
  by (cases v; cases pid) auto

text \<open>
  The assignment in \<^verbatim>\<open>#buildUrl\<close>: whenever the query parameters have
  a \<^verbatim>\<open>project\<close> property it ends up holding
  \<^verbatim>\<open>this.projectId\<close>; the module variable, though compared, decides nothing.
\<close>

lemma buildUrl_queryParameters:
  "snd (buildUrl env this module_pid pathUri queryParameters) =
     (case map_of (case queryParameters of None \<Rightarrow> [] | Some q \<Rightarrow> q) ''project'' of
        None \<Rightarrow> (case queryParameters of None \<Rightarrow> [] | Some q \<Rightarrow> q)
      | Some project \<Rightarrow>
          AList.update ''project'' (of_projectId (projectId this))
            (case queryParameters of None \<Rightarrow> [] | Some q \<Rightarrow> q))"
  by (auto simp: buildUrl_def Let_def strict_equal_iff update_triv split: option.splits)

lemma buildUrl_url:
  "fst (buildUrl env this module_pid pathUri queryParameters) =
     map_option
       (\<lambda>u. URL_set_search u
               (URLSearchParams_toString
                  (URLSearchParams_new (Number_toString env)
                     (snd (buildUrl env this module_pid pathUri queryParameters)))))
       (case URL_new env (case pathUri of None \<Rightarrow> [] | Some p \<Rightarrow> p) of
          Some u \<Rightarrow> Some u
        | None \<Rightarrow> URL_new env (baseUrl this @ (case pathUri of None \<Rightarrow> [] | Some p \<Rightarrow> p)))"
  by (auto simp: buildUrl_def Let_def isValidUrl_def buildRequestQueryParams_def
        split: option.splits)

lemma buildUrl_SomeD:
  assumes "buildUrl env this module_pid pathUri queryParameters = (Some url, qp')"
  obtains parsed where
    "(case URL_new env (case pathUri of None \<Rightarrow> [] | Some p \<Rightarrow> p) of
        Some u \<Rightarrow> Some u
      | None \<Rightarrow> URL_new env (baseUrl this @ (case pathUri of None \<Rightarrow> [] | Some p \<Rightarrow> p)))
     = Some parsed"
    "url = URL_set_search parsed
             (URLSearchParams_toString (URLSearchParams_new (Number_toString env) qp'))"
proof -
  have s: "snd (buildUrl env this module_pid pathUri queryParameters) = qp'"
    and f: "fst (buildUrl env this module_pid pathUri queryParameters) = Some url"
    using assms by simp_all
  from f[unfolded buildUrl_url s] that show ?thesis
    unfolding map_option_eq_Some by blast
qed

lemma map_of_URLSearchParams_new:
  "map_of (URLSearchParams_new number_toString obj) name
     = map_option (String number_toString) (map_of obj name)"
  by (induction obj) (auto simp: URLSearchParams_new_def)

lemma getProjectId_result:
  assumes "getProjectId env m reqOpts = Inr (pid, m')"
  shows "(opt_projectId reqOpts = Some pid \<and> pid \<noteq> [])
         \<or> ((opt_projectId reqOpts = None \<or> opt_projectId reqOpts = Some [])
             \<and> authClient_getProjectId env = Inr pid)"
  using assms
  by (auto simp: getProjectId_def Let_def split: option.splits sum.splits if_splits)

lemma cache_projectId_truthy:
  assumes "cache_projectId m this pid = (m', this')" and "pid \<noteq> []"
  shows "projectId this' = Some pid" and "module_projectId m' = Some pid"
  using assms by (auto simp: cache_projectId_def Let_def)

text \<open>
  C2. In a dispatched call whose query parameters have the reserved key
  \<^verbatim>\<open>project\<close>, with whatever value, the URL handed to the engine
  carries under \<^verbatim>\<open>project\<close> the project id the transport holds after
  the resolution step; when the call resolved a non-empty id (the one the descriptor
  names, else the one the auth client returned), that is this id.
\<close>

theorem project_substitution:
  assumes "dispatched (makeRequest env m this reqOpts callback) = Some config"
    and "opt_queryParameters reqOpts = Some queryParameters"
    and "map_of queryParameters ''project'' = Some project"
  shows "\<exists>url.
           config K_url = Some (V_URL url)
           \<and> searchParams_get url ''project''
               = Some (String (Number_toString env)
                         (of_projectId
                            (projectId (this_after (makeRequest env m this reqOpts callback)))))
           \<and> (\<forall>pid. pid \<noteq> []
                  \<and> (opt_projectId reqOpts = Some pid
                      \<or> (opt_projectId reqOpts = None \<or> opt_projectId reqOpts = Some [])
                         \<and> authClient_getProjectId env = Inr pid) \<longrightarrow>
                 projectId (this_after (makeRequest env m this reqOpts callback)) = Some pid
                 \<and> searchParams_get url ''project'' = Some pid)"
proof -
  let ?out = "makeRequest env m this reqOpts callback"
  from assms(1) obtain headers pid m2 url qp' where
    g: "getProjectId env (install_interceptors m this reqOpts) reqOpts = Inr (pid, m2)"
    and c: "cache_projectId m2 this pid = (module_after ?out, this_after ?out)"
    and b: "buildUrl env (this_after ?out) (module_projectId (module_after ?out))
              (opt_url reqOpts) (opt_queryParameters reqOpts) = (Some url, qp')"
    and k: "config = request_config (this_after ?out) (reqOpts_after ?out) headers url"
    by (rule makeRequest_after)
  have 1: "config K_url = Some (V_URL url)"
    by (simp add: k request_config_def)
  from buildUrl_queryParameters[of env "this_after ?out" "module_projectId (module_after ?out)"
      "opt_url reqOpts" "opt_queryParameters reqOpts"] b assms(2,3)
  have qp': "qp' = AList.update ''project'' (of_projectId (projectId (this_after ?out)))
               queryParameters"
    by simp
  from b obtain u where
    "url = URL_set_search u
             (URLSearchParams_toString (URLSearchParams_new (Number_toString env) qp'))"
    by (rule buildUrl_SomeD)
  then have 2: "searchParams_get url ''project''
      = Some (String (Number_toString env) (of_projectId (projectId (this_after ?out))))"
    by (simp add: searchParams_get_set_search map_of_URLSearchParams_new qp' update_conv')
  have 3: "projectId (this_after ?out) = Some p \<and> searchParams_get url ''project'' = Some p"
    if "p \<noteq> [] \<and> (opt_projectId reqOpts = Some p
                      \<or> (opt_projectId reqOpts = None \<or> opt_projectId reqOpts = Some [])
                         \<and> authClient_getProjectId env = Inr p)" for p
  proof -
    from getProjectId_result[OF g] that have "pid = p" by auto
    with cache_projectId_truthy(1)[OF c] that have "projectId (this_after ?out) = Some p"
      by simp
    with 2 show ?thesis by simp
  qed
  show ?thesis using 1 2 3 by blast
qed

theorem project_substitution_witness:
  "dispatched (makeRequest example_env example_module example_transport example_reqOpts None)
     = Some example_config
   \<and> opt_queryParameters example_reqOpts
       = Some [(''project'', QString ''wrong-id''), (''maxResults'', QNumber Five)]
   \<and> map_of [(''project'', QString ''wrong-id''), (''maxResults'', QNumber Five)] ''project''
       = Some (QString ''wrong-id'')
   \<and> opt_projectId example_reqOpts = None
   \<and> authClient_getProjectId example_env = Inr ''correct-id''
   \<and> example_config K_url = Some (V_URL example_url)
   \<and> searchParams_get example_url ''project'' = Some ''correct-id''
   \<and> URL_href example_url
       = ''https://storage.googleapis.com/storage/v1/b?project=correct-id&maxResults=5''"
proof -
  note d = example_dispatched[of None]
  have q: "opt_queryParameters example_reqOpts
       = Some [(''project'', QString ''wrong-id''), (''maxResults'', QNumber Five)]"
    "opt_projectId example_reqOpts = None"
    by (simp_all add: example_reqOpts_def)
  have p: "map_of [(''project'', QString ''wrong-id''), (''maxResults'', QNumber Five)] ''project''
       = Some (QString ''wrong-id'')"
    by simp
  have a: "authClient_getProjectId example_env = Inr ''correct-id''"
    by (simp add: example_env_def)
  have k: "example_config K_url = Some (V_URL example_url)"
    by (simp add: example_config_def request_config_def)
  have hr: "URL_href example_url
       = ''https://storage.googleapis.com/storage/v1/b?project=correct-id&maxResults=5''"
    by (simp add: URL_href_def example_url_def)
  from project_substitution[OF d q(1) p] k q(2) a
  have "searchParams_get example_url ''project'' = Some ''correct-id''"
    by auto
  with d q p a k hr show ?thesis by simp
qed

lemma example_absolute_makeRequest:
  "makeRequest example_env example_module example_transport example_reqOpts_absolute None =
     settled ([], Resolved (Val (data example_response)))
       (Some (request_config example_this' example_reqOpts_absolute example_headers
                \<lparr>url_before_query = ''https://example.com/b/o'', url_query = None,
                 url_fragment = None, url_special = True,
          url_opaque_path = False\<rparr>))
       example_module' example_this' example_reqOpts_absolute"
proof -
  have h: "request_headers example_env example_transport example_reqOpts_absolute
           = Some example_headers"
    using example_request_headers
    by (simp add: request_headers_def example_reqOpts_absolute_def cong: option.case_cong)
  have g: "getProjectId example_env
             (install_interceptors example_module example_transport example_reqOpts_absolute)
             example_reqOpts_absolute = Inr (''correct-id'', example_module')"
    using example_getProjectId
    by (simp add: getProjectId_def install_interceptors_def example_reqOpts_absolute_def)
  have b: "buildUrl example_env example_this' (module_projectId example_module')
             (opt_url example_reqOpts_absolute) (opt_queryParameters example_reqOpts_absolute)
           = (Some \<lparr>url_before_query = ''https://example.com/b/o'', url_query = None,
                    url_fragment = None, url_special = True,
          url_opaque_path = False\<rparr>, [])"
    by (simp add: url_eval example_reqOpts_absolute_def example_env_def example_URL_new_def)
  have r: "example_reqOpts_absolute
           = example_reqOpts_absolute\<lparr>opt_queryParameters :=
               map_option (\<lambda>q. []) (opt_queryParameters example_reqOpts_absolute)\<rparr>"
    by (simp add: example_reqOpts_absolute_def)
  have a: "authClient_request example_env c = Inr example_response" for c
    by (simp add: example_env_def)
  show ?thesis
    using makeRequest_dispatches[OF h g example_cache_projectId b r refl, of None]
    by (simp add: a)
qed

text \<open>
  C5, as the claim states it, fails: an absolute \<^verbatim>\<open>descriptor.url\<close>
  is not dispatched verbatim. \<^verbatim>\<open>#buildUrl\<close> assigns the serialized
  query parameters to \<^verbatim>\<open>url.search\<close>, so the query the URL came with
  is dropped: \<^verbatim>\<open>https://example.com/b/o?alt=media\<close> without query
  parameters is dispatched as \<^verbatim>\<open>https://example.com/b/o\<close>.
\<close>

theorem absolute_url_counterexample:
  "opt_url example_reqOpts_absolute = Some ''https://example.com/b/o?alt=media''
   \<and> opt_queryParameters example_reqOpts_absolute = None
   \<and> map_option URL_href (URL_new example_env ''https://example.com/b/o?alt=media'')
       = Some ''https://example.com/b/o?alt=media''
   \<and> dispatched (makeRequest example_env example_module example_transport
                    example_reqOpts_absolute None) \<noteq> None
   \<and> the (dispatched (makeRequest example_env example_module example_transport
                         example_reqOpts_absolute None)) K_url
       = Some (V_URL \<lparr>url_before_query = ''https://example.com/b/o'', url_query = None,
                       url_fragment = None, url_special = True,
          url_opaque_path = False\<rparr>)
   \<and> URL_href \<lparr>url_before_query = ''https://example.com/b/o'', url_query = None,
                  url_fragment = None, url_special = True,
          url_opaque_path = False\<rparr>
       = ''https://example.com/b/o''"
proof -
  have o: "opt_url example_reqOpts_absolute = Some ''https://example.com/b/o?alt=media''"
    "opt_queryParameters example_reqOpts_absolute = None"
    by (simp_all add: example_reqOpts_absolute_def)
  have n: "map_option URL_href (URL_new example_env ''https://example.com/b/o?alt=media'')
       = Some ''https://example.com/b/o?alt=media''"
    by (simp add: example_env_def example_URL_new_def URL_href_def)
  have hr: "URL_href \<lparr>url_before_query = ''https://example.com/b/o'', url_query = None,
                  url_fragment = None, url_special = True,
          url_opaque_path = False\<rparr>
       = ''https://example.com/b/o''"
    by (simp add: URL_href_def)
  show ?thesis
    using o n hr by (simp add: example_absolute_makeRequest settled_def request_config_def)
qed

text \<open>
  What the \<^verbatim>\<open>search\<close> setter leaves of a URL when it is given the
  serialization of some entries.
\<close>

lemma toString_Nil_iff: "URLSearchParams_toString entries = [] \<longleftrightarrow> entries = []"
proof
  assume "URLSearchParams_toString entries = []"
  then have "urlencoded_parse [] = entries"
    using urlencoded_parse_toString[of entries] by simp
  then show "entries = []" by (simp add: urlencoded_parse_def)
next
  assume "entries = []"
  then show "URLSearchParams_toString entries = []"
    by (simp add: URLSearchParams_toString_def)
qed

lemma URL_set_search_cases:
  "URL_set_search u (URLSearchParams_toString entries)
     = (if entries = []
        then (if url_opaque_path u \<and> url_fragment u = None
              then u\<lparr>url_before_query := strip_trailing_spaces (url_before_query u),
                     url_query := None\<rparr>
              else u\<lparr>url_query := None\<rparr>)
        else u\<lparr>url_query := Some (URLSearchParams_toString entries)\<rparr>)"
proof (cases "URLSearchParams_toString entries")
  case Nil
  then show ?thesis
    using toString_Nil_iff[of entries] by (simp add: URL_set_search_def)
next
  case (Cons c cs)
  then have "entries \<noteq> []" using toString_Nil_iff[of entries] by simp
  then show ?thesis by (simp add: URL_set_search_nonempty[OF Cons])
qed

lemma URL_set_search_toString:
  "url_query (URL_set_search u (URLSearchParams_toString entries))
     = (if entries = [] then None else Some (URLSearchParams_toString entries))"
  "url_before_query (URL_set_search u (URLSearchParams_toString entries))
     = (if entries = [] \<and> url_opaque_path u \<and> url_fragment u = None
        then strip_trailing_spaces (url_before_query u)
        else url_before_query u)"
  "url_fragment (URL_set_search u (URLSearchParams_toString entries)) = url_fragment u"
  "url_special (URL_set_search u (URLSearchParams_toString entries)) = url_special u"
  "url_opaque_path (URL_set_search u (URLSearchParams_toString entries)) = url_opaque_path u"
  by (simp_all add: URL_set_search_cases)

lemma URLSearchParams_new_Nil_iff: "URLSearchParams_new number_toString obj = [] \<longleftrightarrow> obj = []"
  by (simp add: URLSearchParams_new_def)

text \<open>
  An opaque path that ends in spaces: \<^verbatim>\<open>foo:bar  ?q=1\<close> without query
  parameters is dispatched as \<^verbatim>\<open>foo:bar\<close>, the setter having made the
  query null and stripped the spaces.
\<close>

lemma opaque_path_dispatch_example:
  "map_option URL_href (URL_new example_env ''foo:bar  ?q=1'') = Some ''foo:bar  ?q=1''
   \<and> dispatched (makeRequest example_env example_module example_transport
                    example_reqOpts_opaque None)
       = Some (request_config example_this' example_reqOpts_opaque example_headers
                 \<lparr>url_before_query = ''foo:bar'', url_query = None, url_fragment = None,
                  url_special = False, url_opaque_path = True\<rparr>)
   \<and> URL_href \<lparr>url_before_query = ''foo:bar'', url_query = None, url_fragment = None,
                  url_special = False, url_opaque_path = True\<rparr> = ''foo:bar''"
proof -
  have h: "request_headers example_env example_transport example_reqOpts_opaque
           = Some example_headers"
    using example_request_headers
    by (simp add: request_headers_def example_reqOpts_opaque_def cong: option.case_cong)
  have g: "getProjectId example_env
             (install_interceptors example_module example_transport example_reqOpts_opaque)
             example_reqOpts_opaque = Inr (''correct-id'', example_module')"
    using example_getProjectId
    by (simp add: getProjectId_def install_interceptors_def example_reqOpts_opaque_def)
  have b: "buildUrl example_env example_this' (module_projectId example_module')
             (opt_url example_reqOpts_opaque) (opt_queryParameters example_reqOpts_opaque)
           = (Some \<lparr>url_before_query = ''foo:bar'', url_query = None, url_fragment = None,
                    url_special = False, url_opaque_path = True\<rparr>, [])"
    by (simp add: url_eval strip_trailing_spaces_def example_reqOpts_opaque_def example_env_def
          example_URL_new_def)
  have r: "example_reqOpts_opaque
           = example_reqOpts_opaque\<lparr>opt_queryParameters :=
               map_option (\<lambda>q. []) (opt_queryParameters example_reqOpts_opaque)\<rparr>"
    by (simp add: example_reqOpts_opaque_def)
  have n: "map_option URL_href (URL_new example_env ''foo:bar  ?q=1'') = Some ''foo:bar  ?q=1''"
    by (simp add: example_env_def example_URL_new_def URL_href_def)
  show ?thesis
    using makeRequest_dispatches[OF h g example_cache_projectId b r refl, of None] n
    by (simp add: settled_def URL_href_def)
qed

text \<open>
  C5, amended. In a dispatched call the URL is parsed from
  \<^verbatim>\<open>descriptor.url\<close> when that parses as an absolute URL, and
  otherwise from the base URL with \<^verbatim>\<open>descriptor.url\<close> concatenated
  onto it. Its query is then replaced by the serialization of the query parameters
  (after the substitution of \<^verbatim>\<open>project\<close>, which leaves parameters
  without that key as supplied): the query is null when there are no parameters and
  the serialization otherwise, so a query the URL came with is dropped. The fragment
  is kept, and so is the URL up to its query, except that with no parameters, an opaque
  path and a null fragment the trailing spaces of that path are stripped. The
  serialization is the standard URL encoding of the parameters in the order of the
  mapping: parsing it back gives the names and the values as
  \<^verbatim>\<open>String\<close> prints them, in that order.
\<close>

theorem url_of_dispatch:
  assumes "dispatched (makeRequest env m this reqOpts callback) = Some config"
  shows "\<exists>parsed queryParameters' url.
           (case URL_new env (case opt_url reqOpts of None \<Rightarrow> [] | Some p \<Rightarrow> p) of
              Some u \<Rightarrow> Some u
            | None \<Rightarrow>
                URL_new env (baseUrl this @ (case opt_url reqOpts of None \<Rightarrow> [] | Some p \<Rightarrow> p)))
             = Some parsed
           \<and> queryParameters' =
               (case map_of (case opt_queryParameters reqOpts of None \<Rightarrow> [] | Some q \<Rightarrow> q)
                       ''project'' of
                  None \<Rightarrow> (case opt_queryParameters reqOpts of None \<Rightarrow> [] | Some q \<Rightarrow> q)
                | Some project \<Rightarrow>
                    AList.update ''project''
                      (of_projectId
                         (projectId (this_after (makeRequest env m this reqOpts callback))))
                      (case opt_queryParameters reqOpts of None \<Rightarrow> [] | Some q \<Rightarrow> q))
           \<and> config K_url = Some (V_URL url)
           \<and> url = URL_set_search parsed
                     (URLSearchParams_toString
                        (URLSearchParams_new (Number_toString env) queryParameters'))
           \<and> url_query url
               = (if queryParameters' = [] then None
                  else Some (URLSearchParams_toString
                               (URLSearchParams_new (Number_toString env) queryParameters')))
           \<and> url_before_query url
               = (if queryParameters' = [] \<and> url_opaque_path parsed
                     \<and> url_fragment parsed = None
                  then strip_trailing_spaces (url_before_query parsed)
                  else url_before_query parsed)
           \<and> url_fragment url = url_fragment parsed
           \<and> url_special url = url_special parsed
           \<and> url_opaque_path url = url_opaque_path parsed
           \<and> urlencoded_parse (case url_query url of None \<Rightarrow> [] | Some q \<Rightarrow> q)
               = map (\<lambda>(name, v). (name, String (Number_toString env) v)) queryParameters'"
proof -
  let ?out = "makeRequest env m this reqOpts callback"
  from assms(1) obtain headers pid m2 url qp' where
    c: "cache_projectId m2 this pid = (module_after ?out, this_after ?out)"
    and b: "buildUrl env (this_after ?out) (module_projectId (module_after ?out))
              (opt_url reqOpts) (opt_queryParameters reqOpts) = (Some url, qp')"
    and k: "config = request_config (this_after ?out) (reqOpts_after ?out) headers url"
    by (rule makeRequest_after)
  let ?ser = "URLSearchParams_toString (URLSearchParams_new (Number_toString env) qp')"
  from b obtain parsed where
    p: "(case URL_new env (case opt_url reqOpts of None \<Rightarrow> [] | Some p \<Rightarrow> p) of
           Some u \<Rightarrow> Some u
         | None \<Rightarrow>
             URL_new env (baseUrl (this_after ?out)
                          @ (case opt_url reqOpts of None \<Rightarrow> [] | Some p \<Rightarrow> p)))
        = Some parsed"
    and u: "url = URL_set_search parsed ?ser"
    by (rule buildUrl_SomeD)
  have 1: "(case URL_new env (case opt_url reqOpts of None \<Rightarrow> [] | Some p \<Rightarrow> p) of
              Some u \<Rightarrow> Some u
            | None \<Rightarrow>
                URL_new env (baseUrl this @ (case opt_url reqOpts of None \<Rightarrow> [] | Some p \<Rightarrow> p)))
             = Some parsed"
    using p unfolding cache_projectId_keeps(3)[OF c] .
  have 2: "qp' =
               (case map_of (case opt_queryParameters reqOpts of None \<Rightarrow> [] | Some q \<Rightarrow> q)
                       ''project'' of
                  None \<Rightarrow> (case opt_queryParameters reqOpts of None \<Rightarrow> [] | Some q \<Rightarrow> q)
                | Some project \<Rightarrow>
                    AList.update ''project'' (of_projectId (projectId (this_after ?out)))
                      (case opt_queryParameters reqOpts of None \<Rightarrow> [] | Some q \<Rightarrow> q))"
    using buildUrl_queryParameters[of env "this_after ?out"
        "module_projectId (module_after ?out)" "opt_url reqOpts" "opt_queryParameters reqOpts"] b
    by simp
  have 3: "config K_url = Some (V_URL url)"
    by (simp add: k request_config_def)
  have 4: "url_query url = (if qp' = [] then None else Some ?ser)"
    "url_before_query url
       = (if qp' = [] \<and> url_opaque_path parsed \<and> url_fragment parsed = None
          then strip_trailing_spaces (url_before_query parsed)
          else url_before_query parsed)"
    "url_fragment url = url_fragment parsed"
    "url_special url = url_special parsed"
    "url_opaque_path url = url_opaque_path parsed"
    unfolding u by (simp_all add: URL_set_search_toString URLSearchParams_new_Nil_iff)
  have 5: "urlencoded_parse (case url_query url of None \<Rightarrow> [] | Some q \<Rightarrow> q)
           = map (\<lambda>(name, v). (name, String (Number_toString env) v)) qp'"
  proof (cases "qp' = []")
    case True
    then show ?thesis by (simp add: 4(1) urlencoded_parse_def)
  next
    case False
    then show ?thesis
      using urlencoded_parse_toString[of "URLSearchParams_new (Number_toString env) qp'"]
      by (simp add: 4(1) URLSearchParams_new_def)
  qed
  show ?thesis
    using 1 2 3 u 4 5 by blast
qed

theorem url_of_dispatch_witness:
  "dispatched (makeRequest example_env example_module example_transport example_reqOpts None)
     = Some example_config
   \<and> opt_url example_reqOpts = Some ''/b''
   \<and> URL_new example_env ''/b'' = None
   \<and> URL_new example_env (baseUrl example_transport @ ''/b'')
       = Some \<lparr>url_before_query = ''https://storage.googleapis.com/storage/v1/b'',
               url_query = None, url_fragment = None, url_special = True,
          url_opaque_path = False\<rparr>
   \<and> example_config K_url = Some (V_URL example_url)
   \<and> URL_href example_url
       = ''https://storage.googleapis.com/storage/v1/b?project=correct-id&maxResults=5''
   \<and> urlencoded_parse (case url_query example_url of None \<Rightarrow> [] | Some q \<Rightarrow> q)
       = [(''project'', ''correct-id''), (''maxResults'', ''5'')]"
proof -
  note d = example_dispatched[of None]
  have o: "opt_url example_reqOpts = Some ''/b''"
    "opt_queryParameters example_reqOpts
       = Some [(''project'', QString ''wrong-id''), (''maxResults'', QNumber Five)]"
    by (simp_all add: example_reqOpts_def)
  have n: "URL_new example_env ''/b'' = None"
    "URL_new example_env (baseUrl example_transport @ ''/b'')
       = Some \<lparr>url_before_query = ''https://storage.googleapis.com/storage/v1/b'',
               url_query = None, url_fragment = None, url_special = True,
          url_opaque_path = False\<rparr>"
    "Number_toString example_env = example_Number_toString"
    by (simp_all add: example_env_def example_URL_new_def example_transport_def)
  have k: "example_config K_url = Some (V_URL example_url)"
    by (simp add: example_config_def request_config_def)
  have hr: "URL_href example_url
       = ''https://storage.googleapis.com/storage/v1/b?project=correct-id&maxResults=5''"
    by (simp add: URL_href_def example_url_def)
  have t: "projectId (this_after (makeRequest example_env example_module example_transport
                        example_reqOpts None)) = Some ''correct-id''"
    by (simp add: example_makeRequest settled_def example_this'_def)
  from url_of_dispatch[OF d] k
  have "urlencoded_parse (case url_query example_url of None \<Rightarrow> [] | Some q \<Rightarrow> q)
       = [(''project'', ''correct-id''), (''maxResults'', ''5'')]"
    by (auto simp: o n t)
  with d o(1) n(1,2) k hr show ?thesis by simp
qed

section \<open>The cached project id\<close>

lemma resolved_after:
  assumes "request_headers env this reqOpts = Some headers"
    and "getProjectId env (install_interceptors m this reqOpts) reqOpts = Inr (pid, m2)"
  shows "cache_projectId m2 this pid
         = (module_after (makeRequest env m this reqOpts callback),
            this_after (makeRequest env m this reqOpts callback))"
proof -
  obtain m3 this' where c: "cache_projectId m2 this pid = (m3, this')"
    by (cases "cache_projectId m2 this pid")
  obtain u qp' where b: "buildUrl env this' (module_projectId m3) (opt_url reqOpts)
      (opt_queryParameters reqOpts) = (u, qp')"
    by (cases "buildUrl env this' (module_projectId m3) (opt_url reqOpts)
      (opt_queryParameters reqOpts)")
  show ?thesis
  proof (cases u)
    case None
    with makeRequest_url_throws[OF assms c b[unfolded None]] c
    show ?thesis by (simp add: settled_def)
  next
    case (Some url)
    with makeRequest_dispatches[OF assms c b[unfolded Some] refl refl] c
    show ?thesis by (simp add: settled_def)
  qed
qed

lemma getProjectId_explicit:
  assumes "opt_projectId reqOpts = Some pid" and "pid \<noteq> []"
  shows "getProjectId env m reqOpts = Inr (pid, m)"
  using assms by (simp add: getProjectId_def)

lemma getProjectId_lookup:
  assumes "opt_projectId reqOpts = None \<or> opt_projectId reqOpts = Some []"
    and "authClient_getProjectId env = Inr pid"
  shows "getProjectId env m reqOpts = Inr (pid, m\<lparr>module_projectId := Some pid\<rparr>)"
  using assms by (auto simp: getProjectId_def)

text \<open>
  C4, as the claim states it, fails: a call that names a project id writes it to the
  module variable, over the id an earlier lookup had cached there.
\<close>

theorem cache_overwritten_counterexample:
  "module_projectId example_module = Some ''auth-id''
   \<and> opt_projectId example_reqOpts_explicit = Some ''override''
   \<and> module_projectId
         (module_after (makeRequest example_env example_module example_transport
                          example_reqOpts_explicit None))
       = Some ''override''"
proof -
  have h: "request_headers example_env example_transport example_reqOpts_explicit
           = Some example_headers"
    using example_request_headers
    by (simp add: request_headers_def example_reqOpts_explicit_def cong: option.case_cong)
  have o: "opt_projectId example_reqOpts_explicit = Some ''override''"
    by (simp add: example_reqOpts_explicit_def)
  have "module_projectId
         (module_after (makeRequest example_env example_module example_transport
                          example_reqOpts_explicit None))
       = Some ''override''"
    by (rule cache_projectId_truthy(2)[OF resolved_after[OF h getProjectId_explicit[OF o]]])
      simp_all
  then show ?thesis using o by (simp add: example_module_def)
qed

text \<open>
  C4, amended. The module variable is shared by all transports and a call that names a
  non-empty project id overwrites it (and the id of its transport) with that id. A later
  call on any transport that names no project id asks the auth client again, and when
  that lookup returns a non-empty id, both the module variable and the transport hold
  the id of the auth client afterwards, not the earlier override. Both calls are taken
  past the assembly of their headers.
\<close>

theorem explicit_projectId_then_lookup:
  assumes "request_headers env1 this1 reqOpts1 \<noteq> None"
    and "opt_projectId reqOpts1 = Some explicit" and "explicit \<noteq> []"
    and "request_headers env2 this2 reqOpts2 \<noteq> None"
    and "opt_projectId reqOpts2 = None \<or> opt_projectId reqOpts2 = Some []"
    and "authClient_getProjectId env2 = Inr pid" and "pid \<noteq> []"
  shows "module_projectId (module_after (makeRequest env1 m this1 reqOpts1 callback1))
           = Some explicit
         \<and> projectId (this_after (makeRequest env1 m this1 reqOpts1 callback1)) = Some explicit
         \<and> module_projectId
               (module_after
                  (makeRequest env2 (module_after (makeRequest env1 m this1 reqOpts1 callback1))
                     this2 reqOpts2 callback2))
             = Some pid
         \<and> projectId
               (this_after
                  (makeRequest env2 (module_after (makeRequest env1 m this1 reqOpts1 callback1))
                     this2 reqOpts2 callback2))
             = Some pid"
proof -
  let ?out1 = "makeRequest env1 m this1 reqOpts1 callback1"
  let ?out2 = "makeRequest env2 (module_after ?out1) this2 reqOpts2 callback2"
  from assms(1) obtain h1 where h1: "request_headers env1 this1 reqOpts1 = Some h1" by auto
  from assms(4) obtain h2 where h2: "request_headers env2 this2 reqOpts2 = Some h2" by auto
  note c1 = resolved_after[OF h1 getProjectId_explicit[OF assms(2,3)], of m callback1]
  note c2 = resolved_after[OF h2 getProjectId_lookup[OF assms(5,6)], of "module_after ?out1"
      callback2]
  from cache_projectId_truthy[OF c1 assms(3)] cache_projectId_truthy[OF c2 assms(7)]
  show ?thesis by simp
qed

theorem explicit_projectId_then_lookup_witness:
  "request_headers example_env example_transport example_reqOpts_explicit \<noteq> None
   \<and> opt_projectId example_reqOpts_explicit = Some ''override''
   \<and> request_headers example_env example_transport example_reqOpts \<noteq> None
   \<and> opt_projectId example_reqOpts = None
   \<and> authClient_getProjectId example_env = Inr ''correct-id''
   \<and> module_projectId
         (module_after (makeRequest example_env example_module example_transport
                          example_reqOpts_explicit None))
       = Some ''override''
   \<and> projectId
         (this_after
            (makeRequest example_env
               (module_after (makeRequest example_env example_module example_transport
                                example_reqOpts_explicit None))
               (this_after (makeRequest example_env example_module example_transport
                              example_reqOpts_explicit None))
               example_reqOpts None))
       = Some ''correct-id''
   \<and> module_projectId
         (module_after
            (makeRequest example_env
               (module_after (makeRequest example_env example_module example_transport
                                example_reqOpts_explicit None))
               example_transport example_reqOpts None))
       = Some ''correct-id''"
proof -
  have h1: "request_headers example_env example_transport example_reqOpts_explicit \<noteq> None"
    using example_request_headers
    by (simp add: request_headers_def example_reqOpts_explicit_def cong: option.case_cong)
  have o1: "opt_projectId example_reqOpts_explicit = Some ''override''"
    and n1: "''override'' \<noteq> []"
    by (simp_all add: example_reqOpts_explicit_def)
  have h2: "request_headers example_env example_transport example_reqOpts \<noteq> None"
    by (simp add: example_request_headers)
  let ?t = "this_after (makeRequest example_env example_module example_transport
                              example_reqOpts_explicit None)"
  from h1 obtain hs where hs:
    "request_headers example_env example_transport example_reqOpts_explicit = Some hs"
    by auto
  have "providedUserAgent ?t = providedUserAgent example_transport"
    by (rule cache_projectId_keeps(4)[OF resolved_after[OF hs getProjectId_explicit[OF o1 n1]]])
  then have h2': "request_headers example_env ?t example_reqOpts \<noteq> None"
    using h2
    by (simp add: request_headers_def buildRequestHeaders_def getUserAgentString_def
          cong: option.case_cong)
  have o2: "opt_projectId example_reqOpts = None \<or> opt_projectId example_reqOpts = Some []"
    by (simp add: example_reqOpts_def)
  have a: "authClient_getProjectId example_env = Inr ''correct-id''"
    and n2: "''correct-id'' \<noteq> []"
    by (simp_all add: example_env_def)
  from explicit_projectId_then_lookup[OF h1 o1 n1 h2' o2 a n2, of example_module None None]
    explicit_projectId_then_lookup[OF h1 o1 n1 h2 o2 a n2, of example_module None None]
  show ?thesis using h1 o1 h2 a by (simp add: example_reqOpts_def)
qed

section \<open>Callback and promise\<close>

lemma not_dispatched_cases:
  assumes "dispatched (makeRequest env m this reqOpts callback) = None"
  shows "(request_headers env this reqOpts = None
          \<and> callback_calls (makeRequest env m this reqOpts callback) = []
          \<and> returned_promise (makeRequest env m this reqOpts callback) = Rejected TypeError)
         \<or> (request_headers env this reqOpts \<noteq> None
             \<and> (\<exists>e. (e = TypeError \<or> authClient_getProjectId env = Inl e)
                    \<and> (callback_calls (makeRequest env m this reqOpts callback),
                        returned_promise (makeRequest env m this reqOpts callback))
                      = catch_block callback e))"
proof (cases "request_headers env this reqOpts")
  case None
  then show ?thesis by (simp add: makeRequest_headers_throw settled_def)
next
  case (Some headers)
  note h = this
  show ?thesis
  proof (cases "getProjectId env (install_interceptors m this reqOpts) reqOpts")
    case (Inl e)
    then have "authClient_getProjectId env = Inl e"
      by (auto simp: getProjectId_def Let_def split: option.splits sum.splits if_splits)
    with h Inl show ?thesis
      by (auto simp: makeRequest_lookup_fails[OF h Inl] settled_def)
  next
    case (Inr r)
    obtain pid m2 where r: "r = (pid, m2)" by (cases r)
    obtain m3 this' where c: "cache_projectId m2 this pid = (m3, this')"
      by (cases "cache_projectId m2 this pid")
    obtain u qp' where b: "buildUrl env this' (module_projectId m3) (opt_url reqOpts)
        (opt_queryParameters reqOpts) = (u, qp')"
      by (cases "buildUrl env this' (module_projectId m3) (opt_url reqOpts)
        (opt_queryParameters reqOpts)")
    show ?thesis
    proof (cases u)
      case None
      with h show ?thesis
        by (auto simp: makeRequest_url_throws[OF h Inr[unfolded r] c b[unfolded None]] settled_def)
    next
      case (Some url)
      with assms makeRequest_dispatches[OF h Inr[unfolded r] c b[unfolded Some] refl refl]
      show ?thesis by (simp add: settled_def)
    qed
  qed
qed

lemma dispatched_outcome:
  assumes "dispatched (makeRequest env m this reqOpts callback) = Some config"
  shows "(callback_calls (makeRequest env m this reqOpts callback),
          returned_promise (makeRequest env m this reqOpts callback))
         = (case callback of
              Some cb \<Rightarrow> then_catch cb (authClient_request env config)
            | None \<Rightarrow> ([], case authClient_request env config of
                               Inr resp \<Rightarrow> Resolved (Val (data resp))
                             | Inl err \<Rightarrow> Rejected err))"
proof -
  from assms obtain headers pid m2 m3 this' url qp' reqOpts' where
    h: "request_headers env this reqOpts = Some headers"
    and g: "getProjectId env (install_interceptors m this reqOpts) reqOpts = Inr (pid, m2)"
    and c: "cache_projectId m2 this pid = (m3, this')"
    and b: "buildUrl env this' (module_projectId m3) (opt_url reqOpts)
              (opt_queryParameters reqOpts) = (Some url, qp')"
    and r: "reqOpts' = reqOpts\<lparr>opt_queryParameters :=
              map_option (\<lambda>q. qp') (opt_queryParameters reqOpts)\<rparr>"
    and k: "config = request_config this' reqOpts' headers url"
    by (rule dispatchedE)
  show ?thesis
    by (simp add: makeRequest_dispatches[OF h g c b r k] settled_def)
qed

text \<open>
  Two paths on which a callback is not invoked exactly once: a TypeError raised while
  the headers are assembled, before the \<^verbatim>\<open>try\<close>, rejects the promise
  without invoking the callback; a callback that throws on a successful response is
  invoked once more by the \<^verbatim>\<open>catch\<close> handler of the chain, with
  what it threw.
\<close>

lemma headers_TypeError_outcome:
  assumes "request_headers env this reqOpts = None"
  shows "callback_calls (makeRequest env m this reqOpts callback) = []
         \<and> returned_promise (makeRequest env m this reqOpts callback) = Rejected TypeError
         \<and> dispatched (makeRequest env m this reqOpts callback) = None"
  by (simp add: makeRequest_headers_throw[OF assms] settled_def)

lemma throwing_callback_invoked_twice:
  assumes "cb \<lparr>cb_err = Null, cb_data = Val (data resp), cb_fullResponse = Val resp\<rparr>
           = Some thrown"
  shows "fst (then_catch cb (Inr resp))
         = [\<lparr>cb_err = Null, cb_data = Val (data resp), cb_fullResponse = Val resp\<rparr>,
            \<lparr>cb_err = Val thrown, cb_data = Null,
             cb_fullResponse = or_undefined (error_response thrown)\<rparr>]"
  using assms by (simp add: then_catch_def Let_def split: option.splits)

text \<open>
  C1, as the claim states it, fails: when the lookup of the project id fails, the
  callback is invoked with the error alone (\<^verbatim>\<open>callback(e)\<close>), so its data
  argument is \<^verbatim>\<open>undefined\<close>, not \<^verbatim>\<open>null\<close>, and the
  response the error carries is not passed on.
\<close>

theorem callback_arguments_counterexample:
  "authClient_getProjectId example_env_no_project = Inl example_lookup_error
   \<and> error_response example_lookup_error = Some \<lparr>data = ''denied'', status = 403\<rparr>
   \<and> callback_calls (makeRequest example_env_no_project example_module example_transport
                        example_reqOpts (Some example_callback))
       = [\<lparr>cb_err = Val example_lookup_error, cb_data = Undefined,
           cb_fullResponse = Undefined\<rparr>]
   \<and> \<lparr>cb_err = Val example_lookup_error, cb_data = Undefined, cb_fullResponse = Undefined\<rparr>
       \<noteq> \<lparr>cb_err = Val example_lookup_error, cb_data = Null,
           cb_fullResponse = or_undefined (error_response example_lookup_error)\<rparr>"
proof -
  have h: "request_headers example_env_no_project example_transport example_reqOpts
           = Some example_headers"
    using example_request_headers
    by (simp add: request_headers_def buildRequestHeaders_def getUserAgentString_def
          tracking_string_def example_env_no_project_def cong: option.case_cong)
  have l: "authClient_getProjectId example_env_no_project = Inl example_lookup_error"
    by (simp add: example_env_no_project_def)
  have g: "getProjectId example_env_no_project
             (install_interceptors example_module example_transport example_reqOpts)
             example_reqOpts = Inl example_lookup_error"
    by (simp add: getProjectId_def l example_reqOpts_def)
  have e: "error_response example_lookup_error = Some \<lparr>data = ''denied'', status = 403\<rparr>"
    by (simp add: example_lookup_error_def)
  show ?thesis
    using l e
    by (simp add: makeRequest_lookup_fails[OF h g] settled_def catch_block_def
          example_callback_def)
qed

text \<open>
  C1, amended. Without a callback the callback is (of course) never invoked and the
  returned promise resolves with the data of the response when the dispatched request
  succeeds, rejects with the error of the request when it fails, and rejects with the
  error raised when the call fails before the dispatch. With a callback that does not
  throw, in a call whose headers are assembled, the callback is invoked exactly once
  and the returned promise resolves: with \<open>(null, data, response)\<close> when the
  dispatched request succeeds, with \<open>(error, null, error.response)\<close> when it
  fails, and with the error alone when the lookup of the project id or the construction
  of the URL fails before the dispatch.
\<close>

theorem outcome_normalization:
  "(callback_calls (makeRequest env m this reqOpts None) = []
    \<and> (case dispatched (makeRequest env m this reqOpts None) of
          Some config \<Rightarrow>
            returned_promise (makeRequest env m this reqOpts None)
              = (case authClient_request env config of
                   Inr resp \<Rightarrow> Resolved (Val (data resp))
                 | Inl err \<Rightarrow> Rejected err)
        | None \<Rightarrow>
            returned_promise (makeRequest env m this reqOpts None) = Rejected TypeError
            \<or> (\<exists>e. authClient_getProjectId env = Inl e
                   \<and> returned_promise (makeRequest env m this reqOpts None) = Rejected e)))
   \<and> (request_headers env this reqOpts \<noteq> None \<and> (\<forall>args. cb args = None) \<longrightarrow>
        returned_promise (makeRequest env m this reqOpts (Some cb)) = Resolved Undefined
        \<and> (case dispatched (makeRequest env m this reqOpts (Some cb)) of
              Some config \<Rightarrow>
                callback_calls (makeRequest env m this reqOpts (Some cb))
                  = [case authClient_request env config of
                       Inr resp \<Rightarrow>
                         \<lparr>cb_err = Null, cb_data = Val (data resp), cb_fullResponse = Val resp\<rparr>
                     | Inl err \<Rightarrow>
                         \<lparr>cb_err = Val err, cb_data = Null,
                          cb_fullResponse = or_undefined (error_response err)\<rparr>]
            | None \<Rightarrow>
                callback_calls (makeRequest env m this reqOpts (Some cb))
                  = [\<lparr>cb_err = Val TypeError, cb_data = Undefined, cb_fullResponse = Undefined\<rparr>]
                \<or> (\<exists>e. authClient_getProjectId env = Inl e
                       \<and> callback_calls (makeRequest env m this reqOpts (Some cb))
                         = [\<lparr>cb_err = Val e, cb_data = Undefined,
                             cb_fullResponse = Undefined\<rparr>])))"
proof (intro conjI impI)
  show "callback_calls (makeRequest env m this reqOpts None) = []"
  proof (cases "dispatched (makeRequest env m this reqOpts None)")
    case None
    from not_dispatched_cases[OF this] show ?thesis
      by (auto simp: catch_block_def)
  next
    case (Some config)
    from dispatched_outcome[OF this] show ?thesis by simp
  qed
next
  show "case dispatched (makeRequest env m this reqOpts None) of
          Some config \<Rightarrow>
            returned_promise (makeRequest env m this reqOpts None)
              = (case authClient_request env config of
                   Inr resp \<Rightarrow> Resolved (Val (data resp))
                 | Inl err \<Rightarrow> Rejected err)
        | None \<Rightarrow>
            returned_promise (makeRequest env m this reqOpts None) = Rejected TypeError
            \<or> (\<exists>e. authClient_getProjectId env = Inl e
                   \<and> returned_promise (makeRequest env m this reqOpts None) = Rejected e)"
  proof (cases "dispatched (makeRequest env m this reqOpts None)")
    case None
    from not_dispatched_cases[OF this] None show ?thesis
      by (auto simp: catch_block_def)
  next
    case (Some config)
    from dispatched_outcome[OF this] Some show ?thesis by simp
  qed
next
  assume a: "request_headers env this reqOpts \<noteq> None \<and> (\<forall>args. cb args = None)"
  show "returned_promise (makeRequest env m this reqOpts (Some cb)) = Resolved Undefined"
  proof (cases "dispatched (makeRequest env m this reqOpts (Some cb))")
    case None
    from not_dispatched_cases[OF this] a show ?thesis
      by (auto simp: catch_block_def Let_def)
  next
    case (Some config)
    from dispatched_outcome[OF this] a show ?thesis
      by (auto simp: then_catch_def Let_def split: sum.splits)
  qed
  show "case dispatched (makeRequest env m this reqOpts (Some cb)) of
              Some config \<Rightarrow>
                callback_calls (makeRequest env m this reqOpts (Some cb))
                  = [case authClient_request env config of
                       Inr resp \<Rightarrow>
                         \<lparr>cb_err = Null, cb_data = Val (data resp), cb_fullResponse = Val resp\<rparr>
                     | Inl err \<Rightarrow>
                         \<lparr>cb_err = Val err, cb_data = Null,
                          cb_fullResponse = or_undefined (error_response err)\<rparr>]
            | None \<Rightarrow>
                callback_calls (makeRequest env m this reqOpts (Some cb))
                  = [\<lparr>cb_err = Val TypeError, cb_data = Undefined, cb_fullResponse = Undefined\<rparr>]
                \<or> (\<exists>e. authClient_getProjectId env = Inl e
                       \<and> callback_calls (makeRequest env m this reqOpts (Some cb))
                         = [\<lparr>cb_err = Val e, cb_data = Undefined,
                             cb_fullResponse = Undefined\<rparr>])"
  proof (cases "dispatched (makeRequest env m this reqOpts (Some cb))")
    case None
    from not_dispatched_cases[OF this] a None show ?thesis
      by (auto simp: catch_block_def Let_def)
  next
    case (Some config)
    from dispatched_outcome[OF this] a Some show ?thesis
      by (auto simp: then_catch_def Let_def split: sum.splits)
  qed
qed

theorem outcome_normalization_witness:
  "request_headers example_env example_transport example_reqOpts \<noteq> None
   \<and> example_callback \<lparr>cb_err = Null, cb_data = Val ''{}'',
                         cb_fullResponse = Val example_response\<rparr> = None
   \<and> dispatched (makeRequest example_env example_module example_transport example_reqOpts
                    (Some example_callback)) = Some example_config
   \<and> authClient_request example_env example_config = Inr example_response
   \<and> returned_promise (makeRequest example_env example_module example_transport example_reqOpts
                          None) = Resolved (Val ''{}'')
   \<and> callback_calls (makeRequest example_env example_module example_transport example_reqOpts
                        None) = []
   \<and> returned_promise (makeRequest example_env example_module example_transport example_reqOpts
                          (Some example_callback)) = Resolved Undefined
   \<and> callback_calls (makeRequest example_env example_module example_transport example_reqOpts
                        (Some example_callback))
       = [\<lparr>cb_err = Null, cb_data = Val ''{}'', cb_fullResponse = Val example_response\<rparr>]"
proof -
  have h: "request_headers example_env example_transport example_reqOpts \<noteq> None"
    by (simp add: example_request_headers)
  have c: "\<forall>args. example_callback args = None"
    by (simp add: example_callback_def)
  have a: "authClient_request example_env example_config = Inr example_response"
    by (simp add: example_env_def)
  have r: "data example_response = ''{}''"
    by (simp add: example_response_def)
  note d = example_dispatched
  from outcome_normalization[of example_env example_module example_transport example_reqOpts
      example_callback] h c
  show ?thesis
    by (simp add: d a r)
qed

end
